theory Spec2Isabelle
  imports Main "HOL-Library.Word"
begin

section \<open>Text helpers\<close>

text \<open>
  Go's \<^verbatim>\<open>%d\<close> verb on the integer types, and \<^verbatim>\<open>strings.Join\<close>. Go's
  \<^verbatim>\<open>int\<close> and \<^verbatim>\<open>int64\<close> are modelled as \<^typ>\<open>int\<close>: the code only
  compares, prints, increments and indexes with them.
\<close>

definition digit_char :: "nat \<Rightarrow> char" where
  "digit_char d = ''0123456789'' ! d"

function show_nat :: "nat \<Rightarrow> string" where
  "show_nat n = (if n < 10 then [digit_char n] else show_nat (n div 10) @ [digit_char (n mod 10)])"
  by pat_completeness auto
termination
  by (relation "measure (\<lambda>n. n)") auto

declare show_nat.simps [simp del]

definition show_int :: "int \<Rightarrow> string" where
  "show_int i = (if i < 0 then CHR ''-'' # show_nat (nat (- i)) else show_nat (nat i))"

fun join :: "string list \<Rightarrow> string \<Rightarrow> string" where
  "join [] sep = []"
| "join [x] sep = x"
| "join (x # y # ys) sep = x @ sep @ join (y # ys) sep"

section \<open>Package types\<close>

datatype TypeKind =
    VoidKind | IntegerKind | FloatKind | PointerKind | ArrayKind
  | StructKind | FunctionKind | VectorKind | LabelKind

text \<open>
  The implementations of the \<^verbatim>\<open>Type\<close> interface, one constructor each, with the
  struct fields in declaration order. A component type is never nil: the code
  dereferences it without a test.
\<close>

datatype Type =
    VoidType
  | IntType int bool
  | FloatType int
  | PointerType Type int
  | ArrayType Type int
  | StructType string "Type list" bool
  | FunctionType Type "Type list" bool
  | VectorType Type int bool
  | LabelType

fun Kind :: "Type \<Rightarrow> TypeKind" where
  "Kind VoidType = VoidKind"
| "Kind (IntType w s) = IntegerKind"
| "Kind (FloatType w) = FloatKind"
| "Kind (PointerType e a) = PointerKind"
| "Kind (ArrayType e n) = ArrayKind"
| "Kind (StructType nm fs p) = StructKind"
| "Kind (FunctionType r ps v) = FunctionKind"
| "Kind (VectorType e n sc) = VectorKind"
| "Kind LabelType = LabelKind"

text \<open>
  \<^verbatim>\<open>Equal\<close>, method by method. \<open>Equal_each\<close> is the loop
  \<^verbatim>\<open>for i := range t.Fields { if !t.Fields[i].Equal(ot.Fields[i]) { return false } }\<close>
  of \<^verbatim>\<open>StructType.Equal\<close> and \<^verbatim>\<open>FunctionType.Equal\<close>; both run it only after
  the two lengths were found equal, so its second list never ends first.
\<close>

fun Equal :: "Type \<Rightarrow> Type \<Rightarrow> bool"
  and Equal_each :: "Type list \<Rightarrow> Type list \<Rightarrow> bool" where
  "Equal VoidType ot = (Kind ot = VoidKind)"
| "Equal (IntType w s) ot =
     (case ot of IntType w2 s2 \<Rightarrow> w = w2 \<and> s = s2 | _ \<Rightarrow> False)"
| "Equal (FloatType w) ot =
     (case ot of FloatType w2 \<Rightarrow> w = w2 | _ \<Rightarrow> False)"
| "Equal (PointerType e a) ot =
     (case ot of PointerType e2 a2 \<Rightarrow> Equal e e2 \<and> a = a2 | _ \<Rightarrow> False)"
| "Equal (ArrayType e n) ot =
     (case ot of ArrayType e2 n2 \<Rightarrow> n = n2 \<and> Equal e e2 | _ \<Rightarrow> False)"
| "Equal (StructType nm fs p) ot =
     (case ot of
        StructType nm2 fs2 p2 \<Rightarrow>
          if nm \<noteq> [] \<and> nm2 \<noteq> [] then nm = nm2
          else if length fs \<noteq> length fs2 then False
          else if \<not> Equal_each fs fs2 then False
          else p = p2
      | _ \<Rightarrow> False)"
| "Equal (FunctionType r ps v) ot =
     (case ot of
        FunctionType r2 ps2 v2 \<Rightarrow>
          if \<not> Equal r r2 \<or> v \<noteq> v2 then False
          else if length ps \<noteq> length ps2 then False
          else if \<not> Equal_each ps ps2 then False
          else True
      | _ \<Rightarrow> False)"
| "Equal (VectorType e n sc) ot =
     (case ot of VectorType e2 n2 sc2 \<Rightarrow> n = n2 \<and> sc = sc2 \<and> Equal e e2 | _ \<Rightarrow> False)"
| "Equal LabelType ot = (Kind ot = LabelKind)"
| "Equal_each [] us = True"
| "Equal_each (t # ts) [] = True"
| "Equal_each (t # ts) (u # us) = (if \<not> Equal t u then False else Equal_each ts us)"

text \<open>\<^verbatim>\<open>String\<close> of each type.\<close>

fun TypeString :: "Type \<Rightarrow> string" where
  "TypeString VoidType = ''void''"
| "TypeString (IntType w s) = (if \<not> s then ''u'' else ''i'') @ show_int w"
| "TypeString (FloatType w) =
     (if w = 16 then ''f16'' else if w = 32 then ''f32'' else if w = 64 then ''f64''
      else if w = 128 then ''f128'' else ''f'' @ show_int w)"
| "TypeString (PointerType e a) =
     (if a \<noteq> 0 then ''ptr<'' @ TypeString e @ '', '' @ show_int a @ ''>''
      else ''ptr<'' @ TypeString e @ ''>'')"
| "TypeString (ArrayType e n) = ''['' @ show_int n @ '' x '' @ TypeString e @ '']''"
| "TypeString (StructType nm fs p) =
     (if nm \<noteq> [] then ''%'' @ nm
      else (if p then ''<{ '' else ''{ '') @ join (map TypeString fs) '', ''
           @ (if p then '' }>'' else '' }''))"
| "TypeString (FunctionType r ps v) =
     ''fn('' @ join (map TypeString ps @ (if v then [''...''] else [])) '', '' @ '') -> ''
       @ TypeString r"
| "TypeString (VectorType e n sc) =
     (if sc then ''<vscale x '' @ show_int n @ '' x '' @ TypeString e @ ''>''
      else ''<'' @ show_int n @ '' x '' @ TypeString e @ ''>'')"
| "TypeString LabelType = ''label''"

definition I1 :: Type where "I1 = IntType 1 True"
definition I32 :: Type where "I32 = IntType 32 True"
definition F64 :: Type where "F64 = FloatType 64"

definition NewStruct :: "string \<Rightarrow> Type list \<Rightarrow> bool \<Rightarrow> Type" where
  "NewStruct name fields packed = StructType name fields packed"

definition NewPointer :: "Type \<Rightarrow> Type" where
  "NewPointer elem = PointerType elem 0"

section \<open>Package ir: values, instructions and containers\<close>

datatype error = Panic string | IndexOutOfRange | NilPointerDereference

text \<open>Sequencing of fallible steps: the first panic ends the call.\<close>

definition andThen :: "error + 'a \<Rightarrow> ('a \<Rightarrow> error + 'b) \<Rightarrow> error + 'b" where
  "andThen r f = (case r of Inl e \<Rightarrow> Inl e | Inr x \<Rightarrow> f x)"

datatype Opcode =
    OpRet | OpBr | OpCondBr | OpSwitch | OpUnreachable
  | OpAdd | OpSub | OpMul | OpUDiv | OpSDiv | OpURem | OpSRem
  | OpFAdd | OpFSub | OpFMul | OpFDiv | OpFRem
  | OpShl | OpLShr | OpAShr | OpAnd | OpOr | OpXor
  | OpAlloca | OpLoad | OpStore | OpGetElementPtr
  | OpTrunc | OpZExt | OpSExt | OpFPTrunc | OpFPExt | OpFPToUI | OpFPToSI
  | OpUIToFP | OpSIToFP | OpPtrToInt | OpIntToPtr | OpBitcast
  | OpICmp | OpFCmp | OpPhi | OpSelect | OpCall | OpExtractValue | OpInsertValue

text \<open>\<^verbatim>\<open>Opcode.String\<close>: the table \<^verbatim>\<open>opcodeNames\<close>, which has every declared opcode.\<close>

fun Opcode_String :: "Opcode \<Rightarrow> string" where
  "Opcode_String OpRet = ''ret''"
| "Opcode_String OpBr = ''br''"
| "Opcode_String OpCondBr = ''br''"
| "Opcode_String OpSwitch = ''switch''"
| "Opcode_String OpUnreachable = ''unreachable''"
| "Opcode_String OpAdd = ''add''"
| "Opcode_String OpSub = ''sub''"
| "Opcode_String OpMul = ''mul''"
| "Opcode_String OpUDiv = ''udiv''"
| "Opcode_String OpSDiv = ''sdiv''"
| "Opcode_String OpURem = ''urem''"
| "Opcode_String OpSRem = ''srem''"
| "Opcode_String OpFAdd = ''fadd''"
| "Opcode_String OpFSub = ''fsub''"
| "Opcode_String OpFMul = ''fmul''"
| "Opcode_String OpFDiv = ''fdiv''"
| "Opcode_String OpFRem = ''frem''"
| "Opcode_String OpShl = ''shl''"
| "Opcode_String OpLShr = ''lshr''"
| "Opcode_String OpAShr = ''ashr''"
| "Opcode_String OpAnd = ''and''"
| "Opcode_String OpOr = ''or''"
| "Opcode_String OpXor = ''xor''"
| "Opcode_String OpAlloca = ''alloca''"
| "Opcode_String OpLoad = ''load''"
| "Opcode_String OpStore = ''store''"
| "Opcode_String OpGetElementPtr = ''getelementptr''"
| "Opcode_String OpTrunc = ''trunc''"
| "Opcode_String OpZExt = ''zext''"
| "Opcode_String OpSExt = ''sext''"
| "Opcode_String OpFPTrunc = ''fptrunc''"
| "Opcode_String OpFPExt = ''fpext''"
| "Opcode_String OpFPToUI = ''fptoui''"
| "Opcode_String OpFPToSI = ''fptosi''"
| "Opcode_String OpUIToFP = ''uitofp''"
| "Opcode_String OpSIToFP = ''sitofp''"
| "Opcode_String OpPtrToInt = ''ptrtoint''"
| "Opcode_String OpIntToPtr = ''inttoptr''"
| "Opcode_String OpBitcast = ''bitcast''"
| "Opcode_String OpICmp = ''icmp''"
| "Opcode_String OpFCmp = ''fcmp''"
| "Opcode_String OpPhi = ''phi''"
| "Opcode_String OpSelect = ''select''"
| "Opcode_String OpCall = ''call''"
| "Opcode_String OpExtractValue = ''extractvalue''"
| "Opcode_String OpInsertValue = ''insertvalue''"

datatype ICmpPredicate =
    ICmpEQ | ICmpNE | ICmpUGT | ICmpUGE | ICmpULT | ICmpULE
  | ICmpSGT | ICmpSGE | ICmpSLT | ICmpSLE

datatype FCmpPredicate =
    FCmpFalse | FCmpOEQ | FCmpOGT | FCmpOGE | FCmpOLT | FCmpOLE | FCmpONE | FCmpORD
  | FCmpUNO | FCmpUEQ | FCmpUGT | FCmpUGE | FCmpULT | FCmpULE | FCmpUNE | FCmpTrue

datatype Linkage =
    ExternalLinkage | InternalLinkage | PrivateLinkage
  | LinkOnceODRLinkage | WeakODRLinkage | CommonLinkage

datatype FuncAttribute =
    AttrNoReturn | AttrNoUnwind | AttrReadOnly | AttrReadNone | AttrAlwaysInline | AttrNoInline

text \<open>
  Objects the code holds by pointer and mutates (basic blocks, instructions, functions,
  modules) live in a store and are named by their address, a natural number; pointer
  equality is equality of addresses and a nil pointer is \<open>None\<close>. Constants, globals
  and arguments are never written by the builder or the printer and are carried by
  value. A \<^verbatim>\<open>float64\<close> is kept as its 64 bits.
\<close>

type_synonym addr = nat

record BaseValue =
  ValName :: string
  ValType :: "Type option"

datatype Value =
    ConstantInt BaseValue int
  | ConstantFloat BaseValue "64 word"
  | ConstantNull BaseValue
  | ConstantUndef BaseValue
  | ConstantArray BaseValue "Value list"
  | ConstantStruct BaseValue "Value list"
  | ConstantZero BaseValue
  | Global BaseValue
  | Argument BaseValue int
  | InstructionRef addr
  | BasicBlockRef addr
  | FunctionRef addr

datatype SwitchCase = SwitchCase Value addr

datatype PhiIncoming = PhiIncoming "Value option" addr

text \<open>
  The instruction structs embed \<^verbatim>\<open>BaseInstruction\<close> and add their own fields; the
  added fields are the \<open>Fields\<close> of the instruction, tagged by the struct. The field
  \<^verbatim>\<open>Parent_\<close> of \<^verbatim>\<open>BaseInstruction\<close> is \<open>InstParent\<close>, and the \<^verbatim>\<open>Parent\<close> and
  \<^verbatim>\<open>Linkage\<close> of a function are \<open>FParent\<close> and \<open>FLinkage\<close>.
\<close>

datatype InstFields =
    RetInst
  | BrInst addr
  | CondBrInst Value addr addr
  | SwitchInst Value addr "SwitchCase list"
  | UnreachableInst
  | BinaryInst bool bool bool
  | AllocaInst Type "Value option" int
  | LoadInst bool int
  | StoreInst bool int
  | GetElementPtrInst Type bool
  | CastInst Type
  | ICmpInst ICmpPredicate
  | FCmpInst FCmpPredicate
  | PhiInst "PhiIncoming list"
  | SelectInst
  | CallInst "addr option" string bool
  | ExtractValueInst "int list"
  | InsertValueInst "int list"

record BaseInstruction = BaseValue +
  Ops :: "Value option list"
  InstParent :: "addr option"
  Op :: Opcode

record Instruction = BaseInstruction +
  Fields :: InstFields

record BasicBlock = BaseValue +
  Instructions :: "addr list"
  Parent :: "addr option"
  Predecessors :: "addr list"
  Successors :: "addr list"

record FunctionSig =
  ReturnType :: Type
  ParamTypes :: "Type list"
  Variadic :: bool

record Function = BaseValue +
  FuncType :: FunctionSig
  Blocks :: "addr list"
  Arguments :: "Value list"
  FLinkage :: Linkage
  FParent :: "addr option"
  Attributes :: "FuncAttribute list"

record Module =
  Name :: string
  Functions :: "addr list"
  Globals :: "Value list"
  Types :: "string \<rightharpoonup> Type"
  DataLayout :: string
  TargetTriple :: string

record Builder =
  module :: "addr option"
  currentFunc :: "addr option"
  currentBlock :: "addr option"
  insertPoint :: int
  nameCounter :: int

text \<open>
  The store, with the next free address of each kind, and the builder at work on it.
  \<open>maxSwitchCases\<close> is the largest capacity the platform's \<^verbatim>\<open>make\<close> accepts for a
  slice of \<^verbatim>\<open>SwitchCase\<close>; the Go runtime fixes it, not this code.
\<close>

record World =
  blocks :: "addr \<Rightarrow> BasicBlock"
  insts :: "addr \<Rightarrow> Instruction"
  funcs :: "addr \<Rightarrow> Function"
  modules :: "addr \<Rightarrow> Module"
  nextBlock :: addr
  nextInst :: addr
  nextFunc :: addr
  nextModule :: addr
  maxSwitchCases :: int
  bld :: Builder

definition upd_block :: "World \<Rightarrow> addr \<Rightarrow> (BasicBlock \<Rightarrow> BasicBlock) \<Rightarrow> World" where
  "upd_block w a f = w\<lparr>blocks := (blocks w)(a := f (blocks w a))\<rparr>"

definition upd_inst :: "World \<Rightarrow> addr \<Rightarrow> (Instruction \<Rightarrow> Instruction) \<Rightarrow> World" where
  "upd_inst w a f = w\<lparr>insts := (insts w)(a := f (insts w a))\<rparr>"

definition upd_func :: "World \<Rightarrow> addr \<Rightarrow> (Function \<Rightarrow> Function) \<Rightarrow> World" where
  "upd_func w a f = w\<lparr>funcs := (funcs w)(a := f (funcs w a))\<rparr>"

definition upd_module :: "World \<Rightarrow> addr \<Rightarrow> (Module \<Rightarrow> Module) \<Rightarrow> World" where
  "upd_module w a f = w\<lparr>modules := (modules w)(a := f (modules w a))\<rparr>"

text \<open>\<^verbatim>\<open>Name()\<close> and \<^verbatim>\<open>Type()\<close> of a value: the fields of its \<^verbatim>\<open>BaseValue\<close>.\<close>

fun Value_Name :: "World \<Rightarrow> Value \<Rightarrow> string" where
  "Value_Name w (ConstantInt bv n) = ValName bv"
| "Value_Name w (ConstantFloat bv x) = ValName bv"
| "Value_Name w (ConstantNull bv) = ValName bv"
| "Value_Name w (ConstantUndef bv) = ValName bv"
| "Value_Name w (ConstantArray bv es) = ValName bv"
| "Value_Name w (ConstantStruct bv fs) = ValName bv"
| "Value_Name w (ConstantZero bv) = ValName bv"
| "Value_Name w (Global bv) = ValName bv"
| "Value_Name w (Argument bv idx) = ValName bv"
| "Value_Name w (InstructionRef a) = ValName (insts w a)"
| "Value_Name w (BasicBlockRef a) = ValName (blocks w a)"
| "Value_Name w (FunctionRef a) = ValName (funcs w a)"

fun Value_Type :: "World \<Rightarrow> Value \<Rightarrow> Type option" where
  "Value_Type w (ConstantInt bv n) = ValType bv"
| "Value_Type w (ConstantFloat bv x) = ValType bv"
| "Value_Type w (ConstantNull bv) = ValType bv"
| "Value_Type w (ConstantUndef bv) = ValType bv"
| "Value_Type w (ConstantArray bv es) = ValType bv"
| "Value_Type w (ConstantStruct bv fs) = ValType bv"
| "Value_Type w (ConstantZero bv) = ValType bv"
| "Value_Type w (Global bv) = ValType bv"
| "Value_Type w (Argument bv idx) = ValType bv"
| "Value_Type w (InstructionRef a) = ValType (insts w a)"
| "Value_Type w (BasicBlockRef a) = ValType (blocks w a)"
| "Value_Type w (FunctionRef a) = ValType (funcs w a)"

subsection \<open>BaseInstruction\<close>

definition NumOperands :: "'a BaseInstruction_scheme \<Rightarrow> int" where
  "NumOperands i = int (length (Ops i))"

text \<open>
  \<^verbatim>\<open>SetOperand\<close>: the loop \<^verbatim>\<open>for len(i.Ops) <= idx { i.Ops = append(i.Ops, nil) }\<close>
  is \<open>grow\<close>; the store \<^verbatim>\<open>i.Ops[idx] = v\<close> that follows panics on a negative index.
\<close>

function grow :: "Value option list \<Rightarrow> int \<Rightarrow> Value option list" where
  "grow ops idx = (if int (length ops) \<le> idx then grow (ops @ [None]) idx else ops)"
  by pat_completeness auto
termination
  by (relation "measure (\<lambda>(ops, idx). nat (idx + 1 - int (length ops)))") auto

declare grow.simps [simp del]

definition SetOperand ::
  "'a BaseInstruction_scheme \<Rightarrow> int \<Rightarrow> Value option \<Rightarrow> error + 'a BaseInstruction_scheme" where
  "SetOperand i idx v =
     (let ops = grow (Ops i) idx in
      if idx < 0 then Inl IndexOutOfRange
      else Inr (i\<lparr>Ops := ops[nat idx := v]\<rparr>))"

definition IsTerminator :: "'a BaseInstruction_scheme \<Rightarrow> bool" where
  "IsTerminator i =
     (case Op i of
        OpRet \<Rightarrow> True | OpBr \<Rightarrow> True | OpCondBr \<Rightarrow> True | OpSwitch \<Rightarrow> True
      | OpUnreachable \<Rightarrow> True
      | _ \<Rightarrow> False)"

text \<open>A struct literal leaves the fields it does not name at their zero values.\<close>

definition new_Instruction :: "InstFields \<Rightarrow> Instruction" where
  "new_Instruction fs =
     \<lparr>ValName = [], ValType = None, Ops = [], InstParent = None, Op = OpRet, Fields = fs\<rparr>"

subsection \<open>BasicBlock, Function, Module\<close>

definition NewBasicBlock :: "string \<Rightarrow> BasicBlock" where
  "NewBasicBlock name =
     \<lparr>ValName = name, ValType = Some LabelType, Instructions = [], Parent = None,
      Predecessors = [], Successors = []\<rparr>"

definition AddInstruction :: "World \<Rightarrow> addr \<Rightarrow> addr \<Rightarrow> World" where
  "AddInstruction w blk inst =
     (let w1 = upd_inst w inst (\<lambda>i. i\<lparr>InstParent := Some blk\<rparr>)
      in upd_block w1 blk (\<lambda>bb. bb\<lparr>Instructions := Instructions bb @ [inst]\<rparr>))"

definition Terminator :: "World \<Rightarrow> addr \<Rightarrow> addr option" where
  "Terminator w blk =
     (let is = Instructions (blocks w blk) in
      if length is = 0 then None
      else
        let l = is ! (length is - 1) in
        if IsTerminator (insts w l) then Some l else None)"

definition NewFunction :: "string \<Rightarrow> FunctionSig \<Rightarrow> Function" where
  "NewFunction name fnType =
     \<lparr>ValName = name,
      ValType = Some (FunctionType (ReturnType fnType) (ParamTypes fnType) (Variadic fnType)),
      FuncType = fnType, Blocks = [],
      Arguments = map (\<lambda>(i, paramType). Argument \<lparr>ValName = [], ValType = Some paramType\<rparr> (int i))
                    (enumerate 0 (ParamTypes fnType)),
      FLinkage = ExternalLinkage, FParent = None, Attributes = []\<rparr>"

definition AddBlock :: "World \<Rightarrow> addr \<Rightarrow> addr \<Rightarrow> World" where
  "AddBlock w f blk =
     (let w1 = upd_block w blk (\<lambda>bb. bb\<lparr>Parent := Some f\<rparr>)
      in upd_func w1 f (\<lambda>fn. fn\<lparr>Blocks := Blocks fn @ [blk]\<rparr>))"

definition NewModule :: "string \<Rightarrow> Module" where
  "NewModule name =
     \<lparr>Name = name, Functions = [], Globals = [], Types = Map.empty,
      DataLayout = [], TargetTriple = []\<rparr>"

definition AddFunction :: "World \<Rightarrow> addr \<Rightarrow> addr \<Rightarrow> World" where
  "AddFunction w m f =
     (let w1 = upd_func w f (\<lambda>fn. fn\<lparr>FParent := Some m\<rparr>)
      in upd_module w1 m (\<lambda>md. md\<lparr>Functions := Functions md @ [f]\<rparr>))"

section \<open>Package builder\<close>

definition New :: Builder where
  "New = \<lparr>module = None, currentFunc = None, currentBlock = None, insertPoint = - 1,
          nameCounter = 0\<rparr>"

text \<open>
  A store with no object in it yet, and a fresh builder. The capacity limit is that of a
  64-bit platform: at most \<open>2 ^ 48\<close> bytes in one allocation, 16 bytes in a
  \<^verbatim>\<open>SwitchCase\<close>.
\<close>

definition emptyWorld :: World where
  "emptyWorld =
     \<lparr>blocks = (\<lambda>a. NewBasicBlock []), insts = (\<lambda>a. new_Instruction RetInst),
      funcs = (\<lambda>a. NewFunction [] \<lparr>ReturnType = VoidType, ParamTypes = [], Variadic = False\<rparr>),
      modules = (\<lambda>a. NewModule []),
      nextBlock = 0, nextInst = 0, nextFunc = 0, nextModule = 0,
      maxSwitchCases = 17592186044416, bld = New\<rparr>"

definition CreateModule :: "World \<Rightarrow> string \<Rightarrow> World \<times> addr" where
  "CreateModule w name =
     (let m = nextModule w;
          w1 = w\<lparr>modules := (modules w)(m := NewModule name), nextModule := m + 1\<rparr>
      in (w1\<lparr>bld := (bld w1)\<lparr>module := Some m\<rparr>\<rparr>, m))"

definition SetInsertPoint :: "World \<Rightarrow> addr \<Rightarrow> World" where
  "SetInsertPoint w block =
     w\<lparr>bld := (bld w)\<lparr>currentBlock := Some block, currentFunc := Parent (blocks w block),
                      insertPoint := - 1\<rparr>\<rparr>"

text \<open>
  The search of \<^verbatim>\<open>SetInsertPointBefore\<close>: the first position of the block that holds
  the instruction, if any.
\<close>

fun indexOf :: "addr list \<Rightarrow> addr \<Rightarrow> nat \<Rightarrow> nat option" where
  "indexOf [] inst i = None"
| "indexOf (x # xs) inst i = (if x = inst then Some i else indexOf xs inst (i + 1))"

definition SetInsertPointBefore :: "World \<Rightarrow> addr \<Rightarrow> error + World" where
  "SetInsertPointBefore w inst =
     (let w1 = w\<lparr>bld := (bld w)\<lparr>currentBlock := InstParent (insts w inst)\<rparr>\<rparr> in
      case currentBlock (bld w1) of
        None \<Rightarrow> Inl NilPointerDereference
      | Some cb \<Rightarrow>
          (case indexOf (Instructions (blocks w1 cb)) inst 0 of
             Some i \<Rightarrow> Inr (w1\<lparr>bld := (bld w1)\<lparr>insertPoint := int i\<rparr>\<rparr>)
           | None \<Rightarrow> Inr w1))"

definition generateName :: "World \<Rightarrow> string \<times> World" where
  "generateName w =
     (let name = show_int (nameCounter (bld w))
      in (name, w\<lparr>bld := (bld w)\<lparr>nameCounter := nameCounter (bld w) + 1\<rparr>\<rparr>))"

text \<open>
  \<^verbatim>\<open>insert\<close>. In positional mode the new slice is the instructions before the cursor,
  the instruction, and the instructions from the cursor on; a cursor beyond the end of
  the block makes the slice expressions or the indexed store panic.
\<close>

definition insert_inst :: "World \<Rightarrow> addr \<Rightarrow> error + World" where
  "insert_inst w inst =
     (case currentBlock (bld w) of
        None \<Rightarrow> Inl (Panic ''no insertion block set'')
      | Some cb \<Rightarrow>
          if insertPoint (bld w) < 0 then Inr (AddInstruction w cb inst)
          else
            let is = Instructions (blocks w cb);
                ip = nat (insertPoint (bld w))
            in if length is < ip then Inl IndexOutOfRange
               else
                 let newInsts = take ip is @ [inst] @ drop ip is;
                     w1 = upd_block w cb (\<lambda>bb. bb\<lparr>Instructions := newInsts\<rparr>);
                     w2 = upd_inst w1 inst (\<lambda>i. i\<lparr>InstParent := Some cb\<rparr>)
                 in Inr (w2\<lparr>bld := (bld w2)\<lparr>insertPoint := insertPoint (bld w2) + 1\<rparr>\<rparr>))"

definition CreateFunction ::
  "World \<Rightarrow> string \<Rightarrow> Type \<Rightarrow> Type list \<Rightarrow> bool \<Rightarrow> World \<times> addr" where
  "CreateFunction w name retType params variadic =
     (let fnType = \<lparr>ReturnType = retType, ParamTypes = params, Variadic = variadic\<rparr>;
          fn = nextFunc w;
          w1 = w\<lparr>funcs := (funcs w)(fn := NewFunction name fnType), nextFunc := fn + 1\<rparr>;
          w2 = (case module (bld w1) of None \<Rightarrow> w1 | Some m \<Rightarrow> AddFunction w1 m fn)
      in (w2\<lparr>bld := (bld w2)\<lparr>currentFunc := Some fn\<rparr>\<rparr>, fn))"

definition CreateBlock :: "World \<Rightarrow> string \<Rightarrow> World \<times> addr" where
  "CreateBlock w name =
     (let block = nextBlock w;
          w1 = w\<lparr>blocks := (blocks w)(block := NewBasicBlock name), nextBlock := block + 1\<rparr>;
          w2 = (case currentFunc (bld w1) of None \<Rightarrow> w1 | Some f \<Rightarrow> AddBlock w1 f block)
      in (w2, block))"

subsection \<open>Instruction constructors\<close>

text \<open>
  Every constructor allocates its instruction, fills it in and hands it to
  \<^verbatim>\<open>insert\<close>; nothing reads the store in between, so the model fills the instruction
  in first and \<open>emit\<close> allocates and inserts it. A constructor returns the world it
  leaves and the address of the instruction. Arguments are taken non-nil unless the
  source tests them against nil or stores them as they come.
\<close>

definition emit :: "World \<Rightarrow> Instruction \<Rightarrow> error + World \<times> addr" where
  "emit w i =
     (let a = nextInst w;
          w1 = w\<lparr>insts := (insts w)(a := i), nextInst := a + 1\<rparr>
      in andThen (insert_inst w1 a) (\<lambda>w2. Inr (w2, a)))"

text \<open>\<^verbatim>\<open>for i, arg := range args { inst.SetOperand(i, arg) }\<close>, from index \<open>k\<close> on.\<close>

fun setOperands :: "Instruction \<Rightarrow> Value option list \<Rightarrow> int \<Rightarrow> error + Instruction" where
  "setOperands i [] k = Inr i"
| "setOperands i (x # xs) k = andThen (SetOperand i k x) (\<lambda>i'. setOperands i' xs (k + 1))"

text \<open>\<^verbatim>\<open>if name == "" { name = b.generateName() }\<close>.\<close>

definition nameOrGenerate :: "World \<Rightarrow> string \<Rightarrow> string \<times> World" where
  "nameOrGenerate w name = (if name = [] then generateName w else (name, w))"

definition ConstInt :: "Type \<Rightarrow> int \<Rightarrow> Value" where
  "ConstInt typ val = ConstantInt \<lparr>ValName = [], ValType = Some typ\<rparr> val"

definition CreateRet :: "World \<Rightarrow> Value option \<Rightarrow> error + World \<times> addr" where
  "CreateRet w v =
     (let inst = (new_Instruction RetInst)\<lparr>Op := OpRet\<rparr> in
      andThen (case v of None \<Rightarrow> Inr inst | Some x \<Rightarrow> SetOperand inst 0 (Some x))
        (\<lambda>inst. emit w inst))"

definition CreateRetVoid :: "World \<Rightarrow> error + World \<times> addr" where
  "CreateRetVoid w = emit w ((new_Instruction RetInst)\<lparr>Op := OpRet\<rparr>)"

definition CreateBr :: "World \<Rightarrow> addr \<Rightarrow> error + World \<times> addr" where
  "CreateBr w target =
     andThen (emit w ((new_Instruction (BrInst target))\<lparr>Op := OpBr\<rparr>))
       (\<lambda>(w1, inst).
          case currentBlock (bld w1) of
            None \<Rightarrow> Inl NilPointerDereference
          | Some cb \<Rightarrow>
              (let w2 = upd_block w1 cb (\<lambda>bb. bb\<lparr>Successors := Successors bb @ [target]\<rparr>);
                   w3 = upd_block w2 target (\<lambda>bb. bb\<lparr>Predecessors := Predecessors bb @ [cb]\<rparr>)
               in Inr (w3, inst)))"

definition CreateCondBr :: "World \<Rightarrow> Value \<Rightarrow> addr \<Rightarrow> addr \<Rightarrow> error + World \<times> addr" where
  "CreateCondBr w cond trueBlock falseBlock =
     andThen (emit w ((new_Instruction (CondBrInst cond trueBlock falseBlock))\<lparr>Op := OpCondBr\<rparr>))
       (\<lambda>(w1, inst).
          case currentBlock (bld w1) of
            None \<Rightarrow> Inl NilPointerDereference
          | Some cb \<Rightarrow>
              (let w2 = upd_block w1 cb
                          (\<lambda>bb. bb\<lparr>Successors := Successors bb @ [trueBlock, falseBlock]\<rparr>);
                   w3 = upd_block w2 trueBlock (\<lambda>bb. bb\<lparr>Predecessors := Predecessors bb @ [cb]\<rparr>);
                   w4 = upd_block w3 falseBlock (\<lambda>bb. bb\<lparr>Predecessors := Predecessors bb @ [cb]\<rparr>)
               in Inr (w4, inst)))"

text \<open>
  \<^verbatim>\<open>make([]ir.SwitchCase, 0, numCases)\<close> panics on a negative capacity and on one
  beyond what the platform can allocate.
\<close>

definition CreateSwitch :: "World \<Rightarrow> Value \<Rightarrow> addr \<Rightarrow> int \<Rightarrow> error + World \<times> addr" where
  "CreateSwitch w cond defaultBlock numCases =
     (if numCases < 0 \<or> maxSwitchCases w < numCases
      then Inl (Panic ''makeslice: cap out of range'')
      else
        andThen (emit w ((new_Instruction (SwitchInst cond defaultBlock []))\<lparr>Op := OpSwitch\<rparr>))
          (\<lambda>(w1, inst).
             case currentBlock (bld w1) of
               None \<Rightarrow> Inl NilPointerDereference
             | Some cb \<Rightarrow>
                 (let w2 = upd_block w1 cb
                             (\<lambda>bb. bb\<lparr>Successors := Successors bb @ [defaultBlock]\<rparr>);
                      w3 = upd_block w2 defaultBlock
                             (\<lambda>bb. bb\<lparr>Predecessors := Predecessors bb @ [cb]\<rparr>)
                  in Inr (w3, inst))))"

text \<open>
  \<^verbatim>\<open>AddCase\<close> takes a \<^verbatim>\<open>*ir.SwitchInst\<close>; the case list of any other instruction
  does not exist, and the model leaves such an instruction as it is.
\<close>

definition appendCase :: "SwitchCase \<Rightarrow> InstFields \<Rightarrow> InstFields" where
  "appendCase c fs = (case fs of SwitchInst cond d cases \<Rightarrow> SwitchInst cond d (cases @ [c]) | _ \<Rightarrow> fs)"

definition AddCase :: "World \<Rightarrow> addr \<Rightarrow> Value \<Rightarrow> addr \<Rightarrow> World" where
  "AddCase w sw val block =
     (let w1 = upd_inst w sw (\<lambda>i. i\<lparr>Fields := appendCase (SwitchCase val block) (Fields i)\<rparr>)
      in case InstParent (insts w1 sw) of
           None \<Rightarrow> w1
         | Some parent \<Rightarrow>
             (let w2 = upd_block w1 parent (\<lambda>bb. bb\<lparr>Successors := Successors bb @ [block]\<rparr>)
              in upd_block w2 block (\<lambda>bb. bb\<lparr>Predecessors := Predecessors bb @ [parent]\<rparr>)))"

definition CreateUnreachable :: "World \<Rightarrow> error + World \<times> addr" where
  "CreateUnreachable w = emit w ((new_Instruction UnreachableInst)\<lparr>Op := OpUnreachable\<rparr>)"

definition createBinaryOp ::
  "World \<Rightarrow> Opcode \<Rightarrow> Value \<Rightarrow> Value \<Rightarrow> string \<Rightarrow> error + World \<times> addr" where
  "createBinaryOp w op lhs rhs name =
     (let (name, w1) = nameOrGenerate w name;
          inst = (new_Instruction (BinaryInst False False False))\<lparr>Op := op, ValName := name\<rparr>
      in andThen (SetOperand inst 0 (Some lhs)) (\<lambda>inst.
         andThen (SetOperand inst 1 (Some rhs)) (\<lambda>inst.
         emit w1 (inst\<lparr>ValType := Value_Type w1 lhs\<rparr>))))"

text \<open>The assignments a wrapper makes to the instruction it got back.\<close>

definition setFlag :: "(InstFields \<Rightarrow> InstFields) \<Rightarrow> error + World \<times> addr \<Rightarrow> error + World \<times> addr" where
  "setFlag f r = andThen r (\<lambda>(w, inst). Inr (upd_inst w inst (\<lambda>i. i\<lparr>Fields := f (Fields i)\<rparr>), inst))"

definition NoSignedWrap_true :: "InstFields \<Rightarrow> InstFields" where
  "NoSignedWrap_true fs = (case fs of BinaryInst nsw nuw ex \<Rightarrow> BinaryInst True nuw ex | _ \<Rightarrow> fs)"

definition NoUnsignedWrap_true :: "InstFields \<Rightarrow> InstFields" where
  "NoUnsignedWrap_true fs = (case fs of BinaryInst nsw nuw ex \<Rightarrow> BinaryInst nsw True ex | _ \<Rightarrow> fs)"

definition Exact_true :: "InstFields \<Rightarrow> InstFields" where
  "Exact_true fs = (case fs of BinaryInst nsw nuw ex \<Rightarrow> BinaryInst nsw nuw True | _ \<Rightarrow> fs)"

definition Volatile_true :: "InstFields \<Rightarrow> InstFields" where
  "Volatile_true fs =
     (case fs of LoadInst vol al \<Rightarrow> LoadInst True al | StoreInst vol al \<Rightarrow> StoreInst True al
      | _ \<Rightarrow> fs)"

definition Alignment_set :: "int \<Rightarrow> InstFields \<Rightarrow> InstFields" where
  "Alignment_set align fs =
     (case fs of LoadInst vol al \<Rightarrow> LoadInst vol align | StoreInst vol al \<Rightarrow> StoreInst vol align
      | _ \<Rightarrow> fs)"

definition InBounds_true :: "InstFields \<Rightarrow> InstFields" where
  "InBounds_true fs = (case fs of GetElementPtrInst t ib \<Rightarrow> GetElementPtrInst t True | _ \<Rightarrow> fs)"

definition CreateAdd :: "World \<Rightarrow> Value \<Rightarrow> Value \<Rightarrow> string \<Rightarrow> error + World \<times> addr" where
  "CreateAdd w lhs rhs name = createBinaryOp w OpAdd lhs rhs name"

definition CreateNSWAdd :: "World \<Rightarrow> Value \<Rightarrow> Value \<Rightarrow> string \<Rightarrow> error + World \<times> addr" where
  "CreateNSWAdd w lhs rhs name = setFlag NoSignedWrap_true (createBinaryOp w OpAdd lhs rhs name)"

definition CreateNUWAdd :: "World \<Rightarrow> Value \<Rightarrow> Value \<Rightarrow> string \<Rightarrow> error + World \<times> addr" where
  "CreateNUWAdd w lhs rhs name = setFlag NoUnsignedWrap_true (createBinaryOp w OpAdd lhs rhs name)"

definition CreateSub :: "World \<Rightarrow> Value \<Rightarrow> Value \<Rightarrow> string \<Rightarrow> error + World \<times> addr" where
  "CreateSub w lhs rhs name = createBinaryOp w OpSub lhs rhs name"

definition CreateNSWSub :: "World \<Rightarrow> Value \<Rightarrow> Value \<Rightarrow> string \<Rightarrow> error + World \<times> addr" where
  "CreateNSWSub w lhs rhs name = setFlag NoSignedWrap_true (createBinaryOp w OpSub lhs rhs name)"

definition CreateMul :: "World \<Rightarrow> Value \<Rightarrow> Value \<Rightarrow> string \<Rightarrow> error + World \<times> addr" where
  "CreateMul w lhs rhs name = createBinaryOp w OpMul lhs rhs name"

definition CreateNSWMul :: "World \<Rightarrow> Value \<Rightarrow> Value \<Rightarrow> string \<Rightarrow> error + World \<times> addr" where
  "CreateNSWMul w lhs rhs name = setFlag NoSignedWrap_true (createBinaryOp w OpMul lhs rhs name)"

definition CreateUDiv :: "World \<Rightarrow> Value \<Rightarrow> Value \<Rightarrow> string \<Rightarrow> error + World \<times> addr" where
  "CreateUDiv w lhs rhs name = createBinaryOp w OpUDiv lhs rhs name"

definition CreateExactUDiv :: "World \<Rightarrow> Value \<Rightarrow> Value \<Rightarrow> string \<Rightarrow> error + World \<times> addr" where
  "CreateExactUDiv w lhs rhs name = setFlag Exact_true (createBinaryOp w OpUDiv lhs rhs name)"

definition CreateSDiv :: "World \<Rightarrow> Value \<Rightarrow> Value \<Rightarrow> string \<Rightarrow> error + World \<times> addr" where
  "CreateSDiv w lhs rhs name = createBinaryOp w OpSDiv lhs rhs name"

definition CreateExactSDiv :: "World \<Rightarrow> Value \<Rightarrow> Value \<Rightarrow> string \<Rightarrow> error + World \<times> addr" where
  "CreateExactSDiv w lhs rhs name = setFlag Exact_true (createBinaryOp w OpSDiv lhs rhs name)"

definition CreateURem :: "World \<Rightarrow> Value \<Rightarrow> Value \<Rightarrow> string \<Rightarrow> error + World \<times> addr" where
  "CreateURem w lhs rhs name = createBinaryOp w OpURem lhs rhs name"

definition CreateSRem :: "World \<Rightarrow> Value \<Rightarrow> Value \<Rightarrow> string \<Rightarrow> error + World \<times> addr" where
  "CreateSRem w lhs rhs name = createBinaryOp w OpSRem lhs rhs name"

definition CreateFAdd :: "World \<Rightarrow> Value \<Rightarrow> Value \<Rightarrow> string \<Rightarrow> error + World \<times> addr" where
  "CreateFAdd w lhs rhs name = createBinaryOp w OpFAdd lhs rhs name"

definition CreateFSub :: "World \<Rightarrow> Value \<Rightarrow> Value \<Rightarrow> string \<Rightarrow> error + World \<times> addr" where
  "CreateFSub w lhs rhs name = createBinaryOp w OpFSub lhs rhs name"

definition CreateFMul :: "World \<Rightarrow> Value \<Rightarrow> Value \<Rightarrow> string \<Rightarrow> error + World \<times> addr" where
  "CreateFMul w lhs rhs name = createBinaryOp w OpFMul lhs rhs name"

definition CreateFDiv :: "World \<Rightarrow> Value \<Rightarrow> Value \<Rightarrow> string \<Rightarrow> error + World \<times> addr" where
  "CreateFDiv w lhs rhs name = createBinaryOp w OpFDiv lhs rhs name"

definition CreateFRem :: "World \<Rightarrow> Value \<Rightarrow> Value \<Rightarrow> string \<Rightarrow> error + World \<times> addr" where
  "CreateFRem w lhs rhs name = createBinaryOp w OpFRem lhs rhs name"

definition CreateShl :: "World \<Rightarrow> Value \<Rightarrow> Value \<Rightarrow> string \<Rightarrow> error + World \<times> addr" where
  "CreateShl w lhs rhs name = createBinaryOp w OpShl lhs rhs name"

definition CreateLShr :: "World \<Rightarrow> Value \<Rightarrow> Value \<Rightarrow> string \<Rightarrow> error + World \<times> addr" where
  "CreateLShr w lhs rhs name = createBinaryOp w OpLShr lhs rhs name"

definition CreateAShr :: "World \<Rightarrow> Value \<Rightarrow> Value \<Rightarrow> string \<Rightarrow> error + World \<times> addr" where
  "CreateAShr w lhs rhs name = createBinaryOp w OpAShr lhs rhs name"

definition CreateAnd :: "World \<Rightarrow> Value \<Rightarrow> Value \<Rightarrow> string \<Rightarrow> error + World \<times> addr" where
  "CreateAnd w lhs rhs name = createBinaryOp w OpAnd lhs rhs name"

definition CreateOr :: "World \<Rightarrow> Value \<Rightarrow> Value \<Rightarrow> string \<Rightarrow> error + World \<times> addr" where
  "CreateOr w lhs rhs name = createBinaryOp w OpOr lhs rhs name"

definition CreateXor :: "World \<Rightarrow> Value \<Rightarrow> Value \<Rightarrow> string \<Rightarrow> error + World \<times> addr" where
  "CreateXor w lhs rhs name = createBinaryOp w OpXor lhs rhs name"

definition CreateAlloca :: "World \<Rightarrow> Type \<Rightarrow> string \<Rightarrow> error + World \<times> addr" where
  "CreateAlloca w typ name =
     (let (name, w1) = nameOrGenerate w name;
          inst = (new_Instruction (AllocaInst typ None 0))
                   \<lparr>Op := OpAlloca, ValType := Some (NewPointer typ), ValName := name\<rparr>
      in emit w1 inst)"

definition CreateAllocaWithCount ::
  "World \<Rightarrow> Type \<Rightarrow> Value option \<Rightarrow> string \<Rightarrow> error + World \<times> addr" where
  "CreateAllocaWithCount w typ count name =
     (let (name, w1) = nameOrGenerate w name;
          inst = (new_Instruction (AllocaInst typ count 0))
                   \<lparr>Op := OpAlloca, ValType := Some (NewPointer typ), ValName := name\<rparr>
      in emit w1 inst)"

definition CreateLoad :: "World \<Rightarrow> Type option \<Rightarrow> Value \<Rightarrow> string \<Rightarrow> error + World \<times> addr" where
  "CreateLoad w typ ptr name =
     (let (name, w1) = nameOrGenerate w name;
          inst = (new_Instruction (LoadInst False 0))\<lparr>Op := OpLoad, ValName := name, ValType := typ\<rparr>
      in andThen (SetOperand inst 0 (Some ptr)) (\<lambda>inst. emit w1 inst))"

definition CreateVolatileLoad ::
  "World \<Rightarrow> Type option \<Rightarrow> Value \<Rightarrow> string \<Rightarrow> error + World \<times> addr" where
  "CreateVolatileLoad w typ ptr name = setFlag Volatile_true (CreateLoad w typ ptr name)"

definition CreateAlignedLoad ::
  "World \<Rightarrow> Type option \<Rightarrow> Value \<Rightarrow> int \<Rightarrow> string \<Rightarrow> error + World \<times> addr" where
  "CreateAlignedLoad w typ ptr align name = setFlag (Alignment_set align) (CreateLoad w typ ptr name)"

definition CreateStore :: "World \<Rightarrow> Value \<Rightarrow> Value \<Rightarrow> error + World \<times> addr" where
  "CreateStore w val ptr =
     (let inst = (new_Instruction (StoreInst False 0))\<lparr>Op := OpStore\<rparr>
      in andThen (SetOperand inst 0 (Some val)) (\<lambda>inst.
         andThen (SetOperand inst 1 (Some ptr)) (\<lambda>inst. emit w inst)))"

definition CreateVolatileStore :: "World \<Rightarrow> Value \<Rightarrow> Value \<Rightarrow> error + World \<times> addr" where
  "CreateVolatileStore w val ptr = setFlag Volatile_true (CreateStore w val ptr)"

definition CreateAlignedStore :: "World \<Rightarrow> Value \<Rightarrow> Value \<Rightarrow> int \<Rightarrow> error + World \<times> addr" where
  "CreateAlignedStore w val ptr align = setFlag (Alignment_set align) (CreateStore w val ptr)"

definition CreateGEP ::
  "World \<Rightarrow> Type \<Rightarrow> Value \<Rightarrow> Value option list \<Rightarrow> string \<Rightarrow> error + World \<times> addr" where
  "CreateGEP w pointeeType ptr indices name =
     (let (name, w1) = nameOrGenerate w name;
          operands = Some ptr # indices;
          inst = (new_Instruction (GetElementPtrInst pointeeType False))
                   \<lparr>Op := OpGetElementPtr, ValName := name, ValType := Some (NewPointer pointeeType)\<rparr>
      in andThen (setOperands inst operands 0) (\<lambda>inst. emit w1 inst))"

definition CreateInBoundsGEP ::
  "World \<Rightarrow> Type \<Rightarrow> Value \<Rightarrow> Value option list \<Rightarrow> string \<Rightarrow> error + World \<times> addr" where
  "CreateInBoundsGEP w pointeeType ptr indices name =
     setFlag InBounds_true (CreateGEP w pointeeType ptr indices name)"

definition CreateStructGEP ::
  "World \<Rightarrow> Type \<Rightarrow> Value \<Rightarrow> int \<Rightarrow> string \<Rightarrow> error + World \<times> addr" where
  "CreateStructGEP w structType ptr idx name =
     (let zero = ConstInt I32 0;
          idxVal = ConstInt I32 idx
      in CreateGEP w structType ptr [Some zero, Some idxVal] name)"

definition createCast ::
  "World \<Rightarrow> Opcode \<Rightarrow> Value \<Rightarrow> Type \<Rightarrow> string \<Rightarrow> error + World \<times> addr" where
  "createCast w op v destTy name =
     (let (name, w1) = nameOrGenerate w name;
          inst = (new_Instruction (CastInst destTy))\<lparr>Op := op, ValName := name, ValType := Some destTy\<rparr>
      in andThen (SetOperand inst 0 (Some v)) (\<lambda>inst. emit w1 inst))"

definition CreateTrunc :: "World \<Rightarrow> Value \<Rightarrow> Type \<Rightarrow> string \<Rightarrow> error + World \<times> addr" where
  "CreateTrunc w v destTy name = createCast w OpTrunc v destTy name"

definition CreateZExt :: "World \<Rightarrow> Value \<Rightarrow> Type \<Rightarrow> string \<Rightarrow> error + World \<times> addr" where
  "CreateZExt w v destTy name = createCast w OpZExt v destTy name"

definition CreateSExt :: "World \<Rightarrow> Value \<Rightarrow> Type \<Rightarrow> string \<Rightarrow> error + World \<times> addr" where
  "CreateSExt w v destTy name = createCast w OpSExt v destTy name"

definition CreateFPTrunc :: "World \<Rightarrow> Value \<Rightarrow> Type \<Rightarrow> string \<Rightarrow> error + World \<times> addr" where
  "CreateFPTrunc w v destTy name = createCast w OpFPTrunc v destTy name"

definition CreateFPExt :: "World \<Rightarrow> Value \<Rightarrow> Type \<Rightarrow> string \<Rightarrow> error + World \<times> addr" where
  "CreateFPExt w v destTy name = createCast w OpFPExt v destTy name"

definition CreateFPToUI :: "World \<Rightarrow> Value \<Rightarrow> Type \<Rightarrow> string \<Rightarrow> error + World \<times> addr" where
  "CreateFPToUI w v destTy name = createCast w OpFPToUI v destTy name"

definition CreateFPToSI :: "World \<Rightarrow> Value \<Rightarrow> Type \<Rightarrow> string \<Rightarrow> error + World \<times> addr" where
  "CreateFPToSI w v destTy name = createCast w OpFPToSI v destTy name"

definition CreateUIToFP :: "World \<Rightarrow> Value \<Rightarrow> Type \<Rightarrow> string \<Rightarrow> error + World \<times> addr" where
  "CreateUIToFP w v destTy name = createCast w OpUIToFP v destTy name"

definition CreateSIToFP :: "World \<Rightarrow> Value \<Rightarrow> Type \<Rightarrow> string \<Rightarrow> error + World \<times> addr" where
  "CreateSIToFP w v destTy name = createCast w OpSIToFP v destTy name"

definition CreatePtrToInt :: "World \<Rightarrow> Value \<Rightarrow> Type \<Rightarrow> string \<Rightarrow> error + World \<times> addr" where
  "CreatePtrToInt w v destTy name = createCast w OpPtrToInt v destTy name"

definition CreateIntToPtr :: "World \<Rightarrow> Value \<Rightarrow> Type \<Rightarrow> string \<Rightarrow> error + World \<times> addr" where
  "CreateIntToPtr w v destTy name = createCast w OpIntToPtr v destTy name"

definition CreateBitCast :: "World \<Rightarrow> Value \<Rightarrow> Type \<Rightarrow> string \<Rightarrow> error + World \<times> addr" where
  "CreateBitCast w v destTy name = createCast w OpBitcast v destTy name"

definition CreateICmp ::
  "World \<Rightarrow> ICmpPredicate \<Rightarrow> Value \<Rightarrow> Value \<Rightarrow> string \<Rightarrow> error + World \<times> addr" where
  "CreateICmp w pred lhs rhs name =
     (let (name, w1) = nameOrGenerate w name;
          inst = (new_Instruction (ICmpInst pred))\<lparr>Op := OpICmp, ValName := name, ValType := Some I1\<rparr>
      in andThen (SetOperand inst 0 (Some lhs)) (\<lambda>inst.
         andThen (SetOperand inst 1 (Some rhs)) (\<lambda>inst. emit w1 inst)))"

definition CreateFCmp ::
  "World \<Rightarrow> FCmpPredicate \<Rightarrow> Value \<Rightarrow> Value \<Rightarrow> string \<Rightarrow> error + World \<times> addr" where
  "CreateFCmp w pred lhs rhs name =
     (let (name, w1) = nameOrGenerate w name;
          inst = (new_Instruction (FCmpInst pred))\<lparr>Op := OpFCmp, ValName := name, ValType := Some I1\<rparr>
      in andThen (SetOperand inst 0 (Some lhs)) (\<lambda>inst.
         andThen (SetOperand inst 1 (Some rhs)) (\<lambda>inst. emit w1 inst)))"

definition CreateICmpEQ :: "World \<Rightarrow> Value \<Rightarrow> Value \<Rightarrow> string \<Rightarrow> error + World \<times> addr" where
  "CreateICmpEQ w lhs rhs name = CreateICmp w ICmpEQ lhs rhs name"

definition CreateICmpNE :: "World \<Rightarrow> Value \<Rightarrow> Value \<Rightarrow> string \<Rightarrow> error + World \<times> addr" where
  "CreateICmpNE w lhs rhs name = CreateICmp w ICmpNE lhs rhs name"

definition CreateICmpSLT :: "World \<Rightarrow> Value \<Rightarrow> Value \<Rightarrow> string \<Rightarrow> error + World \<times> addr" where
  "CreateICmpSLT w lhs rhs name = CreateICmp w ICmpSLT lhs rhs name"

definition CreateICmpSLE :: "World \<Rightarrow> Value \<Rightarrow> Value \<Rightarrow> string \<Rightarrow> error + World \<times> addr" where
  "CreateICmpSLE w lhs rhs name = CreateICmp w ICmpSLE lhs rhs name"

definition CreateICmpSGT :: "World \<Rightarrow> Value \<Rightarrow> Value \<Rightarrow> string \<Rightarrow> error + World \<times> addr" where
  "CreateICmpSGT w lhs rhs name = CreateICmp w ICmpSGT lhs rhs name"

definition CreateICmpSGE :: "World \<Rightarrow> Value \<Rightarrow> Value \<Rightarrow> string \<Rightarrow> error + World \<times> addr" where
  "CreateICmpSGE w lhs rhs name = CreateICmp w ICmpSGE lhs rhs name"

definition CreateICmpULT :: "World \<Rightarrow> Value \<Rightarrow> Value \<Rightarrow> string \<Rightarrow> error + World \<times> addr" where
  "CreateICmpULT w lhs rhs name = CreateICmp w ICmpULT lhs rhs name"

definition CreateICmpULE :: "World \<Rightarrow> Value \<Rightarrow> Value \<Rightarrow> string \<Rightarrow> error + World \<times> addr" where
  "CreateICmpULE w lhs rhs name = CreateICmp w ICmpULE lhs rhs name"

definition CreateICmpUGT :: "World \<Rightarrow> Value \<Rightarrow> Value \<Rightarrow> string \<Rightarrow> error + World \<times> addr" where
  "CreateICmpUGT w lhs rhs name = CreateICmp w ICmpUGT lhs rhs name"

definition CreateICmpUGE :: "World \<Rightarrow> Value \<Rightarrow> Value \<Rightarrow> string \<Rightarrow> error + World \<times> addr" where
  "CreateICmpUGE w lhs rhs name = CreateICmp w ICmpUGE lhs rhs name"

definition CreatePhi :: "World \<Rightarrow> Type option \<Rightarrow> string \<Rightarrow> error + World \<times> addr" where
  "CreatePhi w typ name =
     (let (name, w1) = nameOrGenerate w name;
          inst = (new_Instruction (PhiInst []))\<lparr>Op := OpPhi, ValName := name, ValType := typ\<rparr>
      in emit w1 inst)"

definition CreateSelect ::
  "World \<Rightarrow> Value \<Rightarrow> Value \<Rightarrow> Value \<Rightarrow> string \<Rightarrow> error + World \<times> addr" where
  "CreateSelect w cond trueVal falseVal name =
     (let (name, w1) = nameOrGenerate w name;
          inst = (new_Instruction SelectInst)
                   \<lparr>Op := OpSelect, ValName := name, ValType := Value_Type w1 trueVal\<rparr>
      in andThen (SetOperand inst 0 (Some cond)) (\<lambda>inst.
         andThen (SetOperand inst 1 (Some trueVal)) (\<lambda>inst.
         andThen (SetOperand inst 2 (Some falseVal)) (\<lambda>inst. emit w1 inst))))"

definition CreateCall ::
  "World \<Rightarrow> addr \<Rightarrow> Value option list \<Rightarrow> string \<Rightarrow> error + World \<times> addr" where
  "CreateCall w fn args name =
     (let retType = ReturnType (FuncType (funcs w fn));
          (name, w1) = (if name = [] \<and> Kind retType \<noteq> VoidKind then generateName w else (name, w));
          inst = (new_Instruction (CallInst (Some fn) [] False))
                   \<lparr>Op := OpCall, ValName := name, ValType := Some retType\<rparr>
      in andThen (setOperands inst args 0) (\<lambda>inst. emit w1 inst))"

text \<open>
  \<^verbatim>\<open>CreateCallByName\<close> asks a nil \<^verbatim>\<open>retType\<close> for its kind only when no result
  name is given.
\<close>

definition CreateCallByName ::
  "World \<Rightarrow> string \<Rightarrow> Type option \<Rightarrow> Value option list \<Rightarrow> string \<Rightarrow> error + World \<times> addr" where
  "CreateCallByName w name retType args resultName =
     andThen
       (if resultName = [] then
          (case retType of
             None \<Rightarrow> Inl NilPointerDereference
           | Some t \<Rightarrow> Inr (if Kind t \<noteq> VoidKind then generateName w else (resultName, w)))
        else Inr (resultName, w))
       (\<lambda>(resultName, w1).
          let inst = (new_Instruction (CallInst None name False))
                       \<lparr>Op := OpCall, ValName := resultName, ValType := retType\<rparr>
          in andThen (setOperands inst args 0) (\<lambda>inst. emit w1 inst))"

definition CreateExtractValue ::
  "World \<Rightarrow> Value \<Rightarrow> int list \<Rightarrow> string \<Rightarrow> error + World \<times> addr" where
  "CreateExtractValue w agg indices name =
     (let (name, w1) = nameOrGenerate w name;
          inst = (new_Instruction (ExtractValueInst indices))
                   \<lparr>Op := OpExtractValue, ValName := name, ValType := Value_Type w1 agg\<rparr>
      in andThen (SetOperand inst 0 (Some agg)) (\<lambda>inst. emit w1 inst))"

definition CreateInsertValue ::
  "World \<Rightarrow> Value \<Rightarrow> Value \<Rightarrow> int list \<Rightarrow> string \<Rightarrow> error + World \<times> addr" where
  "CreateInsertValue w agg val indices name =
     (let (name, w1) = nameOrGenerate w name;
          inst = (new_Instruction (InsertValueInst indices))
                   \<lparr>Op := OpInsertValue, ValName := name, ValType := Value_Type w1 agg\<rparr>
      in andThen (SetOperand inst 0 (Some agg)) (\<lambda>inst.
         andThen (SetOperand inst 1 (Some val)) (\<lambda>inst. emit w1 inst)))"

section \<open>Printing\<close>

text \<open>
  The verb \<^verbatim>\<open>%s\<close> on a \<^verbatim>\<open>types.Type\<close> calls its \<^verbatim>\<open>String\<close>; on a nil interface
  it prints \<^verbatim>\<open>%!s(<nil>)\<close>. The verb \<^verbatim>\<open>%g\<close> on a \<^verbatim>\<open>float64\<close> is the
  parameter \<open>g\<close> of the printing functions.
\<close>

definition fmt_Type :: "Type option \<Rightarrow> string" where
  "fmt_Type t = (case t of None \<Rightarrow> ''%!s(<nil>)'' | Some ty \<Rightarrow> TypeString ty)"

definition formatOp :: "(64 word \<Rightarrow> string) \<Rightarrow> World \<Rightarrow> Value option \<Rightarrow> string" where
  "formatOp g w v =
     (case v of
        None \<Rightarrow> ''void''
      | Some x \<Rightarrow>
          (case x of
             ConstantInt bv n \<Rightarrow> show_int n
           | ConstantFloat bv f \<Rightarrow> g f
           | ConstantNull bv \<Rightarrow> ''null''
           | ConstantUndef bv \<Rightarrow> ''undef''
           | Argument bv idx \<Rightarrow>
               if ValName bv \<noteq> [] then ''%'' @ ValName bv else ''%'' @ show_int idx
           | _ \<Rightarrow>
               (let name = Value_Name w x in
                if name = [] then ''%<unnamed>'' else ''%'' @ name)))"

definition binaryFlags :: "bool \<Rightarrow> bool \<Rightarrow> bool \<Rightarrow> string" where
  "binaryFlags nsw nuw exact =
     (let flags = [];
          flags = (if nuw then flags @ '' nuw'' else flags);
          flags = (if nsw then flags @ '' nsw'' else flags);
          flags = (if exact then flags @ '' exact'' else flags)
      in flags)"

text \<open>
  \<^verbatim>\<open>BinaryInst.String\<close> as the instruction file with \<^verbatim>\<open>formatOp\<close> has it. The last
  three arguments are the fields \<^verbatim>\<open>NoSignedWrap\<close>, \<^verbatim>\<open>NoUnsignedWrap\<close> and
  \<^verbatim>\<open>Exact\<close> of the instruction.
\<close>

definition BinaryInst_String ::
  "(64 word \<Rightarrow> string) \<Rightarrow> World \<Rightarrow> 'a BaseInstruction_scheme \<Rightarrow> bool \<Rightarrow> bool \<Rightarrow> bool
     \<Rightarrow> error + string" where
  "BinaryInst_String g w i nsw nuw exact =
     (let flags = binaryFlags nsw nuw exact in
      if length (Ops i) < 2 then Inl IndexOutOfRange
      else
        let lhs = Ops i ! 0; rhs = Ops i ! 1 in
        case lhs of
          None \<Rightarrow> Inl NilPointerDereference
        | Some l \<Rightarrow>
            Inr (''%'' @ ValName i @ '' = '' @ Opcode_String (Op i) @ flags @ '' ''
                 @ fmt_Type (Value_Type w l) @ '' '' @ formatOp g w lhs @ '', '' @ formatOp g w rhs))"

text \<open>
  The repository holds a second copy of the instruction file, without \<^verbatim>\<open>formatOp\<close>,
  whose \<^verbatim>\<open>BinaryInst.String\<close> prints both operands as \<^verbatim>\<open>%\<close> and their name.
\<close>

definition BinaryInst_String_byName ::
  "World \<Rightarrow> 'a BaseInstruction_scheme \<Rightarrow> bool \<Rightarrow> bool \<Rightarrow> bool \<Rightarrow> error + string" where
  "BinaryInst_String_byName w i nsw nuw exact =
     (let flags = binaryFlags nsw nuw exact in
      if length (Ops i) < 2 then Inl IndexOutOfRange
      else
        let lhs = Ops i ! 0; rhs = Ops i ! 1 in
        case lhs of
          None \<Rightarrow> Inl NilPointerDereference
        | Some l \<Rightarrow>
            (case rhs of
               None \<Rightarrow> Inl NilPointerDereference
             | Some r \<Rightarrow>
                 Inr (''%'' @ ValName i @ '' = '' @ Opcode_String (Op i) @ flags @ '' ''
                      @ fmt_Type (Value_Type w l) @ '' %'' @ Value_Name w l @ '', %''
                      @ Value_Name w r)))"

text \<open>
  \<^verbatim>\<open>CallInst.String\<close>. The last three arguments are the fields \<^verbatim>\<open>Callee\<close>,
  \<^verbatim>\<open>CalleeName\<close> and \<^verbatim>\<open>IsTailCall\<close>. \<open>callArgs\<close> is its loop over the operands,
  which skips the nil ones.
\<close>

fun callArgs :: "(64 word \<Rightarrow> string) \<Rightarrow> World \<Rightarrow> Value option list \<Rightarrow> string list" where
  "callArgs g w [] = []"
| "callArgs g w (None # ops) = callArgs g w ops"
| "callArgs g w (Some arg # ops) =
     (fmt_Type (Value_Type w arg) @ '' '' @ formatOp g w (Some arg)) # callArgs g w ops"

definition calleeNameOf :: "World \<Rightarrow> addr option \<Rightarrow> string \<Rightarrow> string" where
  "calleeNameOf w callee calleeName =
     (case callee of None \<Rightarrow> calleeName | Some f \<Rightarrow> ValName (funcs w f))"

definition CallInst_String ::
  "(64 word \<Rightarrow> string) \<Rightarrow> World \<Rightarrow> 'a BaseInstruction_scheme \<Rightarrow> addr option \<Rightarrow> string \<Rightarrow> bool
     \<Rightarrow> string" where
  "CallInst_String g w i callee calleeName isTailCall =
     (let tail = (if isTailCall then ''tail '' else []);
          args = callArgs g w (Ops i);
          calleeName = calleeNameOf w callee calleeName
      in case ValType i of
           None \<Rightarrow> tail @ ''call void @'' @ calleeName @ ''('' @ join args '', '' @ '')''
         | Some t \<Rightarrow>
             if Kind t = VoidKind
             then tail @ ''call void @'' @ calleeName @ ''('' @ join args '', '' @ '')''
             else ''%'' @ ValName i @ '' = '' @ tail @ ''call '' @ TypeString t @ '' @''
                  @ calleeName @ ''('' @ join args '', '' @ '')'')"

section \<open>The instruction constructors as one operation\<close>

text \<open>
  One request for each exported method of the builder that constructs an instruction,
  with the method's arguments; \<open>perform\<close> calls the method. The methods that only
  forward to \<^verbatim>\<open>createBinaryOp\<close>, \<^verbatim>\<open>createCast\<close> and \<^verbatim>\<open>CreateICmp\<close> are
  named by an enumeration each.
\<close>

datatype BinaryMethod =
    M_CreateAdd
  | M_CreateNSWAdd
  | M_CreateNUWAdd
  | M_CreateSub
  | M_CreateNSWSub
  | M_CreateMul
  | M_CreateNSWMul
  | M_CreateUDiv
  | M_CreateExactUDiv
  | M_CreateSDiv
  | M_CreateExactSDiv
  | M_CreateURem
  | M_CreateSRem
  | M_CreateFAdd
  | M_CreateFSub
  | M_CreateFMul
  | M_CreateFDiv
  | M_CreateFRem
  | M_CreateShl
  | M_CreateLShr
  | M_CreateAShr
  | M_CreateAnd
  | M_CreateOr
  | M_CreateXor

datatype CastMethod =
    M_CreateTrunc
  | M_CreateZExt
  | M_CreateSExt
  | M_CreateFPTrunc
  | M_CreateFPExt
  | M_CreateFPToUI
  | M_CreateFPToSI
  | M_CreateUIToFP
  | M_CreateSIToFP
  | M_CreatePtrToInt
  | M_CreateIntToPtr
  | M_CreateBitCast

datatype ICmpMethod =
    M_CreateICmpEQ
  | M_CreateICmpNE
  | M_CreateICmpSLT
  | M_CreateICmpSLE
  | M_CreateICmpSGT
  | M_CreateICmpSGE
  | M_CreateICmpULT
  | M_CreateICmpULE
  | M_CreateICmpUGT
  | M_CreateICmpUGE

fun binaryMethod :: "BinaryMethod \<Rightarrow> World \<Rightarrow> Value \<Rightarrow> Value \<Rightarrow> string \<Rightarrow> error + World \<times> addr" where
  "binaryMethod M_CreateAdd = CreateAdd"
| "binaryMethod M_CreateNSWAdd = CreateNSWAdd"
| "binaryMethod M_CreateNUWAdd = CreateNUWAdd"
| "binaryMethod M_CreateSub = CreateSub"
| "binaryMethod M_CreateNSWSub = CreateNSWSub"
| "binaryMethod M_CreateMul = CreateMul"
| "binaryMethod M_CreateNSWMul = CreateNSWMul"
| "binaryMethod M_CreateUDiv = CreateUDiv"
| "binaryMethod M_CreateExactUDiv = CreateExactUDiv"
| "binaryMethod M_CreateSDiv = CreateSDiv"
| "binaryMethod M_CreateExactSDiv = CreateExactSDiv"
| "binaryMethod M_CreateURem = CreateURem"
| "binaryMethod M_CreateSRem = CreateSRem"
| "binaryMethod M_CreateFAdd = CreateFAdd"
| "binaryMethod M_CreateFSub = CreateFSub"
| "binaryMethod M_CreateFMul = CreateFMul"
| "binaryMethod M_CreateFDiv = CreateFDiv"
| "binaryMethod M_CreateFRem = CreateFRem"
| "binaryMethod M_CreateShl = CreateShl"
| "binaryMethod M_CreateLShr = CreateLShr"
| "binaryMethod M_CreateAShr = CreateAShr"
| "binaryMethod M_CreateAnd = CreateAnd"
| "binaryMethod M_CreateOr = CreateOr"
| "binaryMethod M_CreateXor = CreateXor"

fun castMethod :: "CastMethod \<Rightarrow> World \<Rightarrow> Value \<Rightarrow> Type \<Rightarrow> string \<Rightarrow> error + World \<times> addr" where
  "castMethod M_CreateTrunc = CreateTrunc"
| "castMethod M_CreateZExt = CreateZExt"
| "castMethod M_CreateSExt = CreateSExt"
| "castMethod M_CreateFPTrunc = CreateFPTrunc"
| "castMethod M_CreateFPExt = CreateFPExt"
| "castMethod M_CreateFPToUI = CreateFPToUI"
| "castMethod M_CreateFPToSI = CreateFPToSI"
| "castMethod M_CreateUIToFP = CreateUIToFP"
| "castMethod M_CreateSIToFP = CreateSIToFP"
| "castMethod M_CreatePtrToInt = CreatePtrToInt"
| "castMethod M_CreateIntToPtr = CreateIntToPtr"
| "castMethod M_CreateBitCast = CreateBitCast"

fun icmpMethod :: "ICmpMethod \<Rightarrow> World \<Rightarrow> Value \<Rightarrow> Value \<Rightarrow> string \<Rightarrow> error + World \<times> addr" where
  "icmpMethod M_CreateICmpEQ = CreateICmpEQ"
| "icmpMethod M_CreateICmpNE = CreateICmpNE"
| "icmpMethod M_CreateICmpSLT = CreateICmpSLT"
| "icmpMethod M_CreateICmpSLE = CreateICmpSLE"
| "icmpMethod M_CreateICmpSGT = CreateICmpSGT"
| "icmpMethod M_CreateICmpSGE = CreateICmpSGE"
| "icmpMethod M_CreateICmpULT = CreateICmpULT"
| "icmpMethod M_CreateICmpULE = CreateICmpULE"
| "icmpMethod M_CreateICmpUGT = CreateICmpUGT"
| "icmpMethod M_CreateICmpUGE = CreateICmpUGE"

datatype BuilderCall =
    Call_CreateRet "Value option"
  | Call_CreateRetVoid
  | Call_CreateBr addr
  | Call_CreateCondBr Value addr addr
  | Call_CreateSwitch Value addr int
  | Call_CreateUnreachable
  | Call_Binary BinaryMethod Value Value string
  | Call_CreateAlloca Type string
  | Call_CreateAllocaWithCount Type "Value option" string
  | Call_CreateLoad "Type option" Value string
  | Call_CreateVolatileLoad "Type option" Value string
  | Call_CreateAlignedLoad "Type option" Value int string
  | Call_CreateStore Value Value
  | Call_CreateVolatileStore Value Value
  | Call_CreateAlignedStore Value Value int
  | Call_CreateGEP Type Value "Value option list" string
  | Call_CreateInBoundsGEP Type Value "Value option list" string
  | Call_CreateStructGEP Type Value int string
  | Call_Cast CastMethod Value Type string
  | Call_CreateICmp ICmpPredicate Value Value string
  | Call_CreateFCmp FCmpPredicate Value Value string
  | Call_ICmp ICmpMethod Value Value string
  | Call_CreatePhi "Type option" string
  | Call_CreateSelect Value Value Value string
  | Call_CreateCall addr "Value option list" string
  | Call_CreateCallByName string "Type option" "Value option list" string
  | Call_CreateExtractValue Value "int list" string
  | Call_CreateInsertValue Value Value "int list" string

definition perform :: "World \<Rightarrow> BuilderCall \<Rightarrow> error + World \<times> addr" where
  "perform w c =
     (case c of
        Call_CreateRet v \<Rightarrow> CreateRet w v
      | Call_CreateRetVoid \<Rightarrow> CreateRetVoid w
      | Call_CreateBr target \<Rightarrow> CreateBr w target
      | Call_CreateCondBr cond t f \<Rightarrow> CreateCondBr w cond t f
      | Call_CreateSwitch cond d n \<Rightarrow> CreateSwitch w cond d n
      | Call_CreateUnreachable \<Rightarrow> CreateUnreachable w
      | Call_Binary m lhs rhs name \<Rightarrow> binaryMethod m w lhs rhs name
      | Call_CreateAlloca typ name \<Rightarrow> CreateAlloca w typ name
      | Call_CreateAllocaWithCount typ count name \<Rightarrow> CreateAllocaWithCount w typ count name
      | Call_CreateLoad typ ptr name \<Rightarrow> CreateLoad w typ ptr name
      | Call_CreateVolatileLoad typ ptr name \<Rightarrow> CreateVolatileLoad w typ ptr name
      | Call_CreateAlignedLoad typ ptr align name \<Rightarrow> CreateAlignedLoad w typ ptr align name
      | Call_CreateStore val ptr \<Rightarrow> CreateStore w val ptr
      | Call_CreateVolatileStore val ptr \<Rightarrow> CreateVolatileStore w val ptr
      | Call_CreateAlignedStore val ptr align \<Rightarrow> CreateAlignedStore w val ptr align
      | Call_CreateGEP ty ptr indices name \<Rightarrow> CreateGEP w ty ptr indices name
      | Call_CreateInBoundsGEP ty ptr indices name \<Rightarrow> CreateInBoundsGEP w ty ptr indices name
      | Call_CreateStructGEP ty ptr idx name \<Rightarrow> CreateStructGEP w ty ptr idx name
      | Call_Cast m v destTy name \<Rightarrow> castMethod m w v destTy name
      | Call_CreateICmp pred lhs rhs name \<Rightarrow> CreateICmp w pred lhs rhs name
      | Call_CreateFCmp pred lhs rhs name \<Rightarrow> CreateFCmp w pred lhs rhs name
      | Call_ICmp m lhs rhs name \<Rightarrow> icmpMethod m w lhs rhs name
      | Call_CreatePhi typ name \<Rightarrow> CreatePhi w typ name
      | Call_CreateSelect cond tv fv name \<Rightarrow> CreateSelect w cond tv fv name
      | Call_CreateCall fn args name \<Rightarrow> CreateCall w fn args name
      | Call_CreateCallByName name retType args resultName \<Rightarrow>
          CreateCallByName w name retType args resultName
      | Call_CreateExtractValue agg indices name \<Rightarrow> CreateExtractValue w agg indices name
      | Call_CreateInsertValue agg val indices name \<Rightarrow>
          CreateInsertValue w agg val indices name)"

section \<open>Calls that add edges, in sequence\<close>

text \<open>
  The calls that add control-flow edges towards a block of the caller's choice: a
  branch, a conditional branch, a case of an existing switch. \<open>performEdges\<close> issues a
  list of them in order and stops at the first panic; \<open>targetsOf\<close> lists the target
  blocks a call names.
\<close>

datatype EdgeCall =
    Edge_CreateBr addr
  | Edge_CreateCondBr Value addr addr
  | Edge_AddCase addr Value addr

definition performEdge :: "World \<Rightarrow> EdgeCall \<Rightarrow> error + World" where
  "performEdge w c =
     (case c of
        Edge_CreateBr target \<Rightarrow> andThen (CreateBr w target) (\<lambda>(w', inst). Inr w')
      | Edge_CreateCondBr cond t f \<Rightarrow> andThen (CreateCondBr w cond t f) (\<lambda>(w', inst). Inr w')
      | Edge_AddCase sw val block \<Rightarrow> Inr (AddCase w sw val block))"

fun performEdges :: "World \<Rightarrow> EdgeCall list \<Rightarrow> error + World" where
  "performEdges w [] = Inr w"
| "performEdges w (c # cs) = andThen (performEdge w c) (\<lambda>w'. performEdges w' cs)"

fun targetsOf :: "EdgeCall \<Rightarrow> addr list" where
  "targetsOf (Edge_CreateBr target) = [target]"
| "targetsOf (Edge_CreateCondBr cond t f) = [t, f]"
| "targetsOf (Edge_AddCase sw val block) = [block]"

text \<open>
  A branch or conditional branch is issued from block \<open>S\<close> when the builder's current
  block is \<open>S\<close>; a case is issued from \<open>S\<close> when the parent of its switch is \<open>S\<close>,
  whatever the builder points at. \<open>isBranch\<close> tells the calls that create an
  instruction, and \<open>switchAllocated\<close> says that the switch of a case is an instruction
  allocated before.
\<close>

fun issuedFrom :: "World \<Rightarrow> addr \<Rightarrow> EdgeCall \<Rightarrow> bool" where
  "issuedFrom w S (Edge_CreateBr target) = (currentBlock (bld w) = Some S)"
| "issuedFrom w S (Edge_CreateCondBr cond t f) = (currentBlock (bld w) = Some S)"
| "issuedFrom w S (Edge_AddCase sw val block) = (InstParent (insts w sw) = Some S)"

fun isBranch :: "EdgeCall \<Rightarrow> bool" where
  "isBranch (Edge_CreateBr target) = True"
| "isBranch (Edge_CreateCondBr cond t f) = True"
| "isBranch (Edge_AddCase sw val block) = False"

fun switchAllocated :: "World \<Rightarrow> EdgeCall \<Rightarrow> bool" where
  "switchAllocated w (Edge_CreateBr target) = True"
| "switchAllocated w (Edge_CreateCondBr cond t f) = True"
| "switchAllocated w (Edge_AddCase sw val block) = (sw < nextInst w)"

section \<open>Example worlds\<close>

text \<open>
  A builder with a module, a function \<^verbatim>\<open>void f()\<close> and its block \<^verbatim>\<open>entry\<close>, set to
  append to that block; no instruction was created yet. The module, the function and
  the block are each at address 0.
\<close>

definition startWorld :: World where
  "startWorld =
     (let (w, m) = CreateModule emptyWorld ''m'';
          (w, f) = CreateFunction w ''f'' VoidType [] False;
          (w, entry) = CreateBlock w ''entry''
      in SetInsertPoint w entry)"

text \<open>The same with two more blocks, \<^verbatim>\<open>merge\<close> at address 1 and \<^verbatim>\<open>other\<close> at address 2.\<close>

definition threeBlocks :: World where
  "threeBlocks =
     (let (w, m) = CreateModule emptyWorld ''m'';
          (w, f) = CreateFunction w ''f'' VoidType [] False;
          (w, entry) = CreateBlock w ''entry'';
          (w, merge) = CreateBlock w ''merge'';
          (w, other) = CreateBlock w ''other''
      in SetInsertPoint w entry)"

text \<open>
  \<open>startWorld\<close> with a second function \<^verbatim>\<open>i32 g(i32)\<close>, at address 1; the builder still
  appends to \<^verbatim>\<open>entry\<close>.
\<close>

definition twoFunctions :: World where
  "twoFunctions = (let (w, g) = CreateFunction startWorld ''g'' I32 [I32] False in w)"

section \<open>Type equality\<close>

lemma Equal_each_nth:
  "length ts = length us \<Longrightarrow> Equal_each ts us = (\<forall>i<length ts. Equal (ts ! i) (us ! i))"
proof (induction ts us rule: list_induct2)
  case Nil
  then show ?case by simp
next
  case (Cons t ts u us)
  then show ?case by (auto simp: nth_Cons split: nat.splits)
qed

text \<open>
  Claim C1. Two struct types that both have a non-empty name are \<^verbatim>\<open>Equal\<close> exactly when
  the names are the same, whatever their fields and packed flags are: the struct
  \<^verbatim>\<open>Point\<close> with fields \<^verbatim>\<open>[i32, i32]\<close> equals the struct \<^verbatim>\<open>Point\<close> with fields
  \<^verbatim>\<open>[f64]\<close>.
\<close>

theorem named_struct_Equal_by_name:
  "n1 \<noteq> [] \<Longrightarrow> n2 \<noteq> [] \<Longrightarrow>
   Equal (StructType n1 fs1 p1) (StructType n2 fs2 p2) = (n1 = n2)"
  by simp

theorem named_struct_Equal_by_name_witness:
  "Equal (NewStruct ''Point'' [I32, I32] False) (NewStruct ''Point'' [F64] False)
   \<and> \<not> Equal (NewStruct ''Point'' [I32, I32] False) (NewStruct ''Pair'' [I32, I32] False)"
  using named_struct_Equal_by_name [of "''Point''" "''Point''" "[I32, I32]" False "[F64]" False]
    named_struct_Equal_by_name [of "''Point''" "''Pair''" "[I32, I32]" False "[I32, I32]" False]
  by (simp add: NewStruct_def)

text \<open>
  Claim C10. When at least one of two struct types has the empty name, \<^verbatim>\<open>Equal\<close> is
  structural: it holds exactly when the field lists have the same length, the fields are
  pairwise \<^verbatim>\<open>Equal\<close> and the packed flags agree; so a named struct equals an anonymous
  one with the same fields and packedness.
\<close>

theorem unnamed_struct_Equal_structural:
  "n1 = [] \<or> n2 = [] \<Longrightarrow>
   Equal (StructType n1 fs1 p1) (StructType n2 fs2 p2) =
     (length fs1 = length fs2 \<and> (\<forall>i<length fs1. Equal (fs1 ! i) (fs2 ! i)) \<and> p1 = p2)"
  by (auto simp: Equal_each_nth)

theorem unnamed_struct_Equal_structural_witness:
  "Equal (NewStruct ''Point'' [I32, I32] False) (NewStruct [] [I32, I32] False)
   \<and> \<not> Equal (NewStruct ''Point'' [I32, I32] False) (NewStruct [] [I32, I32] True)
   \<and> \<not> Equal (NewStruct [] [I32, I32] False) (NewStruct ''Point'' [I32] False)
   \<and> \<not> Equal (NewStruct [] [I32, F64] False) (NewStruct [] [I32, I32] False)"
  using unnamed_struct_Equal_structural [of "''Point''" "[]" "[I32, I32]" False "[I32, I32]" False]
    unnamed_struct_Equal_structural [of "''Point''" "[]" "[I32, I32]" False "[I32, I32]" True]
    unnamed_struct_Equal_structural [of "[]" "''Point''" "[I32, I32]" False "[I32]" False]
    unnamed_struct_Equal_structural [of "[]" "[]" "[I32, F64]" False "[I32, I32]" False]
  by (simp add: NewStruct_def I32_def F64_def nth_Cons split: nat.splits)

section \<open>Operands\<close>

lemma grow_eq: "grow ops idx = ops @ replicate (nat (idx + 1 - int (length ops))) None"
proof (induction ops idx rule: grow.induct)
  case (1 ops idx)
  show ?case
  proof (cases "int (length ops) \<le> idx")
    case True
    then have "nat (idx + 1 - int (length ops)) = Suc (nat (idx + 1 - int (length (ops @ [None]))))"
      by simp
    with 1 True show ?thesis
      by (subst grow.simps) (simp add: replicate_app_Cons_same)
  next
    case False
    then show ?thesis by (subst grow.simps) simp
  qed
qed

lemma replicate_Suc_update_last: "(replicate (Suc k) x)[k := v] = replicate k x @ [v]"
  by (induction k) simp_all

lemma SetOperand_nonneg:
  "0 \<le> idx \<Longrightarrow> SetOperand i idx v = Inr (i\<lparr>Ops := (grow (Ops i) idx)[nat idx := v]\<rparr>)"
  by (simp add: SetOperand_def Let_def)

text \<open>
  Claim C8. \<^verbatim>\<open>SetOperand(i, v)\<close> at an index at or beyond the operand count grows the
  operand list to length \<open>i + 1\<close>, with nil in every new position before \<open>i\<close> and \<open>v\<close> at
  \<open>i\<close>; at an index below the count it overwrites in place; \<^verbatim>\<open>NumOperands\<close> is then the
  larger of the old count and \<open>i + 1\<close>. Nothing else of the instruction changes. An index
  is not negative: on a negative one the indexed store panics.
\<close>

theorem SetOperand_grows_or_overwrites:
  "0 \<le> idx \<Longrightarrow>
   (\<exists>i'. SetOperand i idx v = Inr i'
      \<and> i' = i\<lparr>Ops := Ops i'\<rparr>
      \<and> Ops i' = (if int (length (Ops i)) \<le> idx
                  then Ops i @ replicate (nat idx - length (Ops i)) None @ [v]
                  else (Ops i)[nat idx := v])
      \<and> NumOperands i' = max (NumOperands i) (idx + 1))"
proof (cases "int (length (Ops i)) \<le> idx")
  case True
  assume nonneg: "0 \<le> idx"
  define k where "k = nat idx - length (Ops i)"
  from True nonneg have n: "nat (idx + 1 - int (length (Ops i))) = Suc k"
    and i: "nat idx = length (Ops i) + k"
    by (simp_all add: k_def)
  have "(grow (Ops i) idx)[nat idx := v] = Ops i @ replicate k None @ [v]"
    by (simp add: grow_eq n i list_update_append replicate_Suc_update_last del: replicate_Suc)
  with True nonneg show ?thesis
    by (simp add: SetOperand_def NumOperands_def Let_def k_def)
next
  case False
  assume nonneg: "0 \<le> idx"
  from False have "grow (Ops i) idx = Ops i"
    by (simp add: grow_eq)
  with False nonneg show ?thesis
    by (simp add: SetOperand_def NumOperands_def Let_def)
qed

theorem SetOperand_grows_or_overwrites_witness:
  "(\<exists>i'. SetOperand (new_Instruction SelectInst) 2 (Some (ConstInt I32 7)) = Inr i'
      \<and> Ops i' = [None, None, Some (ConstInt I32 7)] \<and> NumOperands i' = 3)
   \<and> (\<exists>i'. SetOperand ((new_Instruction SelectInst)\<lparr>Ops := [None, None, None]\<rparr>) 1
               (Some (ConstInt I32 7)) = Inr i'
      \<and> Ops i' = [None, Some (ConstInt I32 7), None] \<and> NumOperands i' = 3)"
proof -
  have h: "(0::int) \<le> 2" "(0::int) \<le> 1"
    by simp_all
  from SetOperand_grows_or_overwrites [OF h(1), of "new_Instruction SelectInst" "Some (ConstInt I32 7)"]
  have a: "\<exists>i'. SetOperand (new_Instruction SelectInst) 2 (Some (ConstInt I32 7)) = Inr i'
      \<and> Ops i' = [None, None, Some (ConstInt I32 7)] \<and> NumOperands i' = 3"
    by (auto simp add: new_Instruction_def NumOperands_def numeral_2_eq_2)
  from SetOperand_grows_or_overwrites [OF h(2),
      of "(new_Instruction SelectInst)\<lparr>Ops := [None, None, None]\<rparr>" "Some (ConstInt I32 7)"]
  have b: "\<exists>i'. SetOperand ((new_Instruction SelectInst)\<lparr>Ops := [None, None, None]\<rparr>) 1
               (Some (ConstInt I32 7)) = Inr i'
      \<and> Ops i' = [None, Some (ConstInt I32 7), None] \<and> NumOperands i' = 3"
    by (auto simp add: new_Instruction_def NumOperands_def)
  from a b show ?thesis by blast
qed

section \<open>Evaluating the builder on a concrete world\<close>

lemmas world_eval =
  Let_def andThen_def emit_def insert_inst_def AddInstruction_def upd_inst_def upd_block_def
  upd_func_def upd_module_def CreateModule_def CreateFunction_def CreateBlock_def
  SetInsertPoint_def SetInsertPointBefore_def emptyWorld_def New_def NewModule_def
  NewFunction_def NewBasicBlock_def AddFunction_def AddBlock_def nameOrGenerate_def
  generateName_def new_Instruction_def SetOperand_def ConstInt_def I1_def I32_def
  show_int_def show_nat.simps digit_char_def grow.simps startWorld_def threeBlocks_def
  twoFunctions_def

section \<open>Terminators\<close>

text \<open>
  Claim C3. \<^verbatim>\<open>Terminator()\<close> of a block is its last instruction when the block is not
  empty and the opcode of that instruction is return, branch, conditional branch, switch
  or unreachable, and nil otherwise: an earlier terminator does not count.
\<close>

theorem Terminator_is_last_terminator:
  "Terminator w blk =
     (if Instructions (blocks w blk) \<noteq> []
         \<and> Op (insts w (last (Instructions (blocks w blk))))
             \<in> {OpRet, OpBr, OpCondBr, OpSwitch, OpUnreachable}
      then Some (last (Instructions (blocks w blk))) else None)"
  by (auto simp: Terminator_def IsTerminator_def Let_def last_conv_nth split: Opcode.splits)

theorem Terminator_is_last_terminator_witness:
  "Terminator startWorld 0 = None
   \<and> andThen (CreateRetVoid startWorld) (\<lambda>(w, r). Inr (Terminator w 0, r)) = Inr (Some 0, 0)
   \<and> andThen (CreateRetVoid startWorld) (\<lambda>(w, r).
       andThen (CreateAdd w (ConstInt I32 2) (ConstInt I32 3) []) (\<lambda>(w, a).
         Inr (Terminator w 0, Instructions (blocks w 0), r, a))) = Inr (None, [0, 1], 0, 1)"
  by (simp add: Terminator_is_last_terminator world_eval CreateRetVoid_def CreateAdd_def
      createBinaryOp_def)

section \<open>The insertion cursor\<close>

lemma indexOf_first:
  "X \<notin> set pre \<Longrightarrow> indexOf (pre @ X # post) X k = Some (k + length pre)"
  by (induction pre arbitrary: k) auto

text \<open>
  Claim C4. With the cursor set before an instruction \<open>X\<close> of a block, inserting \<open>A\<close> and
  then \<open>B\<close> leaves the block as \<open>\<dots>, A, B, X, \<dots>\<close>: each insertion puts the instruction at
  the cursor and moves the cursor on by one.
\<close>

theorem insert_before_keeps_issue_order:
  assumes "Instructions (blocks w blk) = pre @ X # post"
    and "X \<notin> set pre"
    and "InstParent (insts w X) = Some blk"
  shows "\<exists>w1 w2 w3.
           SetInsertPointBefore w X = Inr w1 \<and> insertPoint (bld w1) = int (length pre)
         \<and> insert_inst w1 A = Inr w2 \<and> insertPoint (bld w2) = int (length pre) + 1
         \<and> Instructions (blocks w2 blk) = pre @ [A, X] @ post
         \<and> insert_inst w2 B = Inr w3 \<and> insertPoint (bld w3) = int (length pre) + 2
         \<and> Instructions (blocks w3 blk) = pre @ [A, B, X] @ post"
proof -
  have n: "nat (int (length pre) + 1) = Suc (length pre)"
    by simp
  show ?thesis
    using assms
    by (simp add: SetInsertPointBefore_def indexOf_first insert_inst_def Let_def upd_block_def
        upd_inst_def n)
qed

text \<open>
  The same through the constructors: a block that holds a return \<open>r\<close>, the cursor set
  before it, then an add \<open>x\<close> and a sub \<open>y\<close> created.
\<close>

lemma insert_before_scenario:
  "andThen (CreateRetVoid startWorld) (\<lambda>(w, r).
     andThen (SetInsertPointBefore w r) (\<lambda>w.
       andThen (CreateAdd w (ConstInt I32 2) (ConstInt I32 3) []) (\<lambda>(w, x).
         andThen (CreateSub w (ConstInt I32 2) (ConstInt I32 3) []) (\<lambda>(w, y).
           Inr (Instructions (blocks w 0), [x, y, r])))))
   = Inr ([1, 2, 0], [1, 2, 0])"
  by (simp add: world_eval CreateRetVoid_def CreateAdd_def CreateSub_def createBinaryOp_def)

theorem insert_before_keeps_issue_order_witness:
  "\<exists>w0 w1 w2 w3.
     CreateRetVoid startWorld = Inr (w0, 0)
   \<and> Instructions (blocks w0 0) = [0]
   \<and> SetInsertPointBefore w0 0 = Inr w1
   \<and> insert_inst w1 5 = Inr w2
   \<and> insert_inst w2 6 = Inr w3
   \<and> Instructions (blocks w3 0) = [5, 6, 0]"
proof -
  obtain w0 where w0: "CreateRetVoid startWorld = Inr (w0, 0)"
    and ins: "Instructions (blocks w0 0) = [] @ 0 # []"
    and par: "InstParent (insts w0 0) = Some 0"
    by (simp add: world_eval CreateRetVoid_def)
  have notin: "(0::nat) \<notin> set []"
    by simp
  from insert_before_keeps_issue_order [OF ins notin par, of 5 6] w0 ins
  show ?thesis
    by auto
qed

section \<open>Printing calls\<close>

lemma Kind_Void_iff: "Kind t = VoidKind \<longleftrightarrow> t = VoidType"
  by (cases t) simp_all

lemma callArgs_each_operand:
  "callArgs g w ops =
     map (\<lambda>arg. fmt_Type (Value_Type w arg) @ '' '' @ formatOp g w (Some arg))
       (map the (filter (\<lambda>x. x \<noteq> None) ops))"
  by (induction g w ops rule: callArgs.induct) simp_all

text \<open>
  Claim C7. A call whose declared return type is nil or the void type prints with no
  result name, as \<^verbatim>\<open>[tail ]call void @<callee>(<args>)\<close>; a call with any other return
  type prints with the prefix \<^verbatim>\<open>%name = \<close>. The callee is the name of the function
  called, or the bare callee name when there is none; the arguments are the operands
  that are not nil, each as its type, a space and the operand, joined by a comma and a
  space. A call of the void function \<^verbatim>\<open>f\<close> with no arguments prints
  \<^verbatim>\<open>call void @f()\<close>.
\<close>

theorem call_printing_void_safe:
  "(ValType i = None \<or> ValType i = Some VoidType \<longrightarrow>
      CallInst_String g w i callee calleeName isTail =
        (if isTail then ''tail '' else []) @ ''call void @''
          @ (case callee of None \<Rightarrow> calleeName | Some f \<Rightarrow> ValName (funcs w f))
          @ ''(''
          @ join (map (\<lambda>arg. fmt_Type (Value_Type w arg) @ '' '' @ formatOp g w (Some arg))
                    (map the (filter (\<lambda>x. x \<noteq> None) (Ops i)))) '', ''
          @ '')'')
   \<and> (\<forall>t. ValType i = Some t \<and> t \<noteq> VoidType \<longrightarrow>
      CallInst_String g w i callee calleeName isTail =
        ''%'' @ ValName i @ '' = '' @ (if isTail then ''tail '' else []) @ ''call '' @ TypeString t
          @ '' @'' @ (case callee of None \<Rightarrow> calleeName | Some f \<Rightarrow> ValName (funcs w f))
          @ ''(''
          @ join (map (\<lambda>arg. fmt_Type (Value_Type w arg) @ '' '' @ formatOp g w (Some arg))
                    (map the (filter (\<lambda>x. x \<noteq> None) (Ops i)))) '', ''
          @ '')'')"
  by (auto simp: CallInst_String_def Let_def Kind_Void_iff callArgs_each_operand calleeNameOf_def)

text \<open>
  Three calls built with the builder and printed: the void \<^verbatim>\<open>f()\<close>; \<^verbatim>\<open>g\<close> of the
  constant 5, which returns \<^verbatim>\<open>i32\<close> and gets the generated name \<^verbatim>\<open>0\<close>; and a call by
  name with a nil return type, a result name, three operands of which the second is nil,
  marked as a tail call afterwards.
\<close>

theorem call_printing_void_safe_witness:
  "\<forall>g.
     (\<exists>w c. CreateCall startWorld 0 [] [] = Inr (w, c)
        \<and> Fields (insts w c) = CallInst (Some 0) [] False
        \<and> ValType (insts w c) = Some VoidType
        \<and> CallInst_String g w (insts w c) (Some 0) [] False = ''call void @f()'')
   \<and> (\<exists>w c. CreateCall twoFunctions 1 [Some (ConstInt I32 5)] [] = Inr (w, c)
        \<and> Fields (insts w c) = CallInst (Some 1) [] False
        \<and> ValType (insts w c) = Some I32
        \<and> CallInst_String g w (insts w c) (Some 1) [] False = ''%0 = call i32 @g(i32 5)'')
   \<and> (\<exists>w c. CreateCallByName startWorld ''h'' None
                [Some (ConstInt I32 5), None, Some (ConstInt I32 7)] ''r'' = Inr (w, c)
        \<and> Fields (insts w c) = CallInst None ''h'' False
        \<and> ValType (insts w c) = None
        \<and> CallInst_String g (upd_inst w c (\<lambda>i. i\<lparr>Fields := CallInst None ''h'' True\<rparr>))
             (insts (upd_inst w c (\<lambda>i. i\<lparr>Fields := CallInst None ''h'' True\<rparr>)) c)
             None ''h'' True
           = ''tail call void @h(i32 5, i32 7)'')"
proof
  fix g
  obtain w1 c1 where r1: "CreateCall startWorld 0 [] [] = Inr (w1, c1)"
    and f1: "Fields (insts w1 c1) = CallInst (Some 0) [] False"
    and t1: "ValType (insts w1 c1) = Some VoidType"
    and o1: "Ops (insts w1 c1) = []"
    and n1: "ValName (funcs w1 0) = ''f''"
    by (simp add: world_eval CreateCall_def)
  from call_printing_void_safe [of "insts w1 c1" g w1 "Some 0" "[]" False] t1 o1 n1
  have s1: "CallInst_String g w1 (insts w1 c1) (Some 0) [] False = ''call void @f()''"
    by simp
  obtain w2 c2 where r2: "CreateCall twoFunctions 1 [Some (ConstInt I32 5)] [] = Inr (w2, c2)"
    and f2: "Fields (insts w2 c2) = CallInst (Some 1) [] False"
    and t2: "ValType (insts w2 c2) = Some I32"
    and v2: "ValName (insts w2 c2) = ''0''"
    and o2: "Ops (insts w2 c2) = [Some (ConstInt I32 5)]"
    and n2: "ValName (funcs w2 1) = ''g''"
    by (simp add: world_eval CreateCall_def)
  from call_printing_void_safe [of "insts w2 c2" g w2 "Some 1" "[]" False] t2 v2 o2 n2
  have s2: "CallInst_String g w2 (insts w2 c2) (Some 1) [] False = ''%0 = call i32 @g(i32 5)''"
    by (simp add: I32_def ConstInt_def fmt_Type_def formatOp_def show_int_def show_nat.simps
        digit_char_def)
  obtain w3 c3 where r3: "CreateCallByName startWorld ''h'' None
                [Some (ConstInt I32 5), None, Some (ConstInt I32 7)] ''r'' = Inr (w3, c3)"
    and f3: "Fields (insts w3 c3) = CallInst None ''h'' False"
    and t3: "ValType (insts w3 c3) = None"
    and o3: "Ops (insts w3 c3) = [Some (ConstInt I32 5), None, Some (ConstInt I32 7)]"
    by (simp add: world_eval CreateCallByName_def)
  let ?w = "upd_inst w3 c3 (\<lambda>i. i\<lparr>Fields := CallInst None ''h'' True\<rparr>)"
  from t3 o3 have t3': "ValType (insts ?w c3) = None"
    and o3': "Ops (insts ?w c3) = [Some (ConstInt I32 5), None, Some (ConstInt I32 7)]"
    by (simp_all add: upd_inst_def)
  from call_printing_void_safe [of "insts ?w c3" g ?w None "''h''" True] t3' o3'
  have s3: "CallInst_String g ?w (insts ?w c3) None ''h'' True = ''tail call void @h(i32 5, i32 7)''"
    by (simp add: I32_def ConstInt_def fmt_Type_def formatOp_def show_int_def show_nat.simps
        digit_char_def)
  from r1 f1 t1 s1 r2 f2 t2 s2 r3 f3 t3 s3
  show "(\<exists>w c. CreateCall startWorld 0 [] [] = Inr (w, c)
        \<and> Fields (insts w c) = CallInst (Some 0) [] False
        \<and> ValType (insts w c) = Some VoidType
        \<and> CallInst_String g w (insts w c) (Some 0) [] False = ''call void @f()'')
   \<and> (\<exists>w c. CreateCall twoFunctions 1 [Some (ConstInt I32 5)] [] = Inr (w, c)
        \<and> Fields (insts w c) = CallInst (Some 1) [] False
        \<and> ValType (insts w c) = Some I32
        \<and> CallInst_String g w (insts w c) (Some 1) [] False = ''%0 = call i32 @g(i32 5)'')
   \<and> (\<exists>w c. CreateCallByName startWorld ''h'' None
                [Some (ConstInt I32 5), None, Some (ConstInt I32 7)] ''r'' = Inr (w, c)
        \<and> Fields (insts w c) = CallInst None ''h'' False
        \<and> ValType (insts w c) = None
        \<and> CallInst_String g (upd_inst w c (\<lambda>i. i\<lparr>Fields := CallInst None ''h'' True\<rparr>))
             (insts (upd_inst w c (\<lambda>i. i\<lparr>Fields := CallInst None ''h'' True\<rparr>)) c)
             None ''h'' True
           = ''tail call void @h(i32 5, i32 7)'')"
    by blast
qed

section \<open>Switch cases\<close>

text \<open>
  Claim C9. \<^verbatim>\<open>AddCase(sw, val, block)\<close> appends one entry to the case list of the switch
  on every call. It appends \<open>block\<close> to the successors of the switch's parent block and the
  parent to the predecessors of \<open>block\<close> only when the parent is not nil; for a switch
  that is in no block, no block changes at all.
\<close>

theorem AddCase_records_case_and_edges:
  assumes "Fields (insts w sw) = SwitchInst cond d cases"
  shows "Fields (insts (AddCase w sw val block) sw) = SwitchInst cond d (cases @ [SwitchCase val block])
       \<and> (InstParent (insts w sw) = None \<longrightarrow> blocks (AddCase w sw val block) = blocks w)
       \<and> (\<forall>p. InstParent (insts w sw) = Some p \<longrightarrow>
             Successors (blocks (AddCase w sw val block) p) = Successors (blocks w p) @ [block]
           \<and> Predecessors (blocks (AddCase w sw val block) block) = Predecessors (blocks w block) @ [p]
           \<and> (p \<noteq> block \<longrightarrow>
                 Predecessors (blocks (AddCase w sw val block) p) = Predecessors (blocks w p)
               \<and> Successors (blocks (AddCase w sw val block) block) = Successors (blocks w block))
           \<and> (\<forall>x. x \<noteq> p \<and> x \<noteq> block \<longrightarrow> blocks (AddCase w sw val block) x = blocks w x))"
  using assms
  by (auto simp: AddCase_def Let_def upd_inst_def upd_block_def appendCase_def split: option.splits)

theorem AddCase_records_case_and_edges_witness:
  "(\<exists>w sw.
      CreateSwitch threeBlocks (ConstInt I32 9) 2 2 = Inr (w, sw)
    \<and> Fields (insts w sw) = SwitchInst (ConstInt I32 9) 2 []
    \<and> InstParent (insts w sw) = Some 0
    \<and> Fields (insts (AddCase w sw (ConstInt I32 0) 1) sw)
        = SwitchInst (ConstInt I32 9) 2 [SwitchCase (ConstInt I32 0) 1]
    \<and> Successors (blocks (AddCase w sw (ConstInt I32 0) 1) 0) = [2, 1]
    \<and> Predecessors (blocks (AddCase w sw (ConstInt I32 0) 1) 1) = [0])
   \<and> InstParent (insts (upd_inst threeBlocks 7
          (\<lambda>i. (new_Instruction (SwitchInst (ConstInt I32 9) 2 []))\<lparr>Op := OpSwitch\<rparr>)) 7) = None
   \<and> Fields (insts (AddCase (upd_inst threeBlocks 7
          (\<lambda>i. (new_Instruction (SwitchInst (ConstInt I32 9) 2 []))\<lparr>Op := OpSwitch\<rparr>))
          7 (ConstInt I32 0) 1) 7)
        = SwitchInst (ConstInt I32 9) 2 [SwitchCase (ConstInt I32 0) 1]
   \<and> blocks (AddCase (upd_inst threeBlocks 7
          (\<lambda>i. (new_Instruction (SwitchInst (ConstInt I32 9) 2 []))\<lparr>Op := OpSwitch\<rparr>))
          7 (ConstInt I32 0) 1) = blocks threeBlocks"
proof -
  let ?c = "ConstInt I32 9"
  let ?u = "upd_inst threeBlocks 7 (\<lambda>i. (new_Instruction (SwitchInst ?c 2 []))\<lparr>Op := OpSwitch\<rparr>)"
  obtain w where sw: "CreateSwitch threeBlocks ?c 2 2 = Inr (w, 0)"
    and f: "Fields (insts w 0) = SwitchInst ?c 2 []"
    and par: "InstParent (insts w 0) = Some 0"
    and su: "Successors (blocks w 0) = [2]"
    and pr: "Predecessors (blocks w 1) = []"
    by (simp add: world_eval CreateSwitch_def)
  have uf: "Fields (insts ?u 7) = SwitchInst ?c 2 []"
    and up: "InstParent (insts ?u 7) = None"
    and ub: "blocks ?u = blocks threeBlocks"
    by (simp_all add: upd_inst_def new_Instruction_def)
  from AddCase_records_case_and_edges [OF f, of "ConstInt I32 0" 1] par su pr
  have a: "Fields (insts (AddCase w 0 (ConstInt I32 0) 1) 0)
        = SwitchInst ?c 2 [SwitchCase (ConstInt I32 0) 1]
    \<and> Successors (blocks (AddCase w 0 (ConstInt I32 0) 1) 0) = [2, 1]
    \<and> Predecessors (blocks (AddCase w 0 (ConstInt I32 0) 1) 1) = [0]"
    by simp
  from AddCase_records_case_and_edges [OF uf, of "ConstInt I32 0" 1] up ub
  have b: "Fields (insts (AddCase ?u 7 (ConstInt I32 0) 1) 7)
        = SwitchInst ?c 2 [SwitchCase (ConstInt I32 0) 1]
    \<and> blocks (AddCase ?u 7 (ConstInt I32 0) 1) = blocks threeBlocks"
    by simp
  from sw f par a b up show ?thesis
    by auto
qed

section \<open>Control-flow edges\<close>

lemma performEdge_step:
  assumes "currentBlock (bld w) = Some S"
    and "insertPoint (bld w) \<le> int (length (Instructions (blocks w S)))"
    and "issuedFrom w S c"
    and "switchAllocated w c"
  shows "\<exists>w'. performEdge w c = Inr w'
           \<and> currentBlock (bld w') = Some S
           \<and> insertPoint (bld w') \<le> int (length (Instructions (blocks w' S)))
           \<and> nextInst w \<le> nextInst w'
           \<and> (\<forall>a<nextInst w. InstParent (insts w' a) = InstParent (insts w a))
           \<and> Predecessors (blocks w' T) = Predecessors (blocks w T) @ replicate (count_list (targetsOf c) T) S
           \<and> Successors (blocks w' S) = Successors (blocks w S) @ targetsOf c"
proof (cases c)
  case (Edge_CreateBr target)
  with assms show ?thesis
    by (auto simp: performEdge_def CreateBr_def emit_def insert_inst_def andThen_def Let_def
        AddInstruction_def upd_block_def upd_inst_def new_Instruction_def)
next
  case (Edge_CreateCondBr cond t f)
  with assms show ?thesis
    by (auto simp: performEdge_def CreateCondBr_def emit_def insert_inst_def andThen_def Let_def
        AddInstruction_def upd_block_def upd_inst_def new_Instruction_def)
next
  case (Edge_AddCase sw val block)
  with assms show ?thesis
    by (auto simp: performEdge_def AddCase_def Let_def upd_block_def upd_inst_def)
qed

lemma performEdges_accumulate:
  assumes "currentBlock (bld w) = Some S"
    and "insertPoint (bld w) \<le> int (length (Instructions (blocks w S)))"
    and "\<forall>c\<in>set cs. issuedFrom w S c \<and> switchAllocated w c"
  shows "\<exists>w'. performEdges w cs = Inr w'
           \<and> Predecessors (blocks w' T) =
               Predecessors (blocks w T) @ replicate (count_list (concat (map targetsOf cs)) T) S
           \<and> Successors (blocks w' S) = Successors (blocks w S) @ concat (map targetsOf cs)"
  using assms
proof (induction cs arbitrary: w)
  case Nil
  then show ?case by simp
next
  case (Cons c cs)
  from Cons.prems have c: "issuedFrom w S c" "switchAllocated w c"
    by simp_all
  from performEdge_step [OF Cons.prems(1) Cons.prems(2) c, of T]
  obtain w1 where step: "performEdge w c = Inr w1"
    and cb: "currentBlock (bld w1) = Some S"
    and ip: "insertPoint (bld w1) \<le> int (length (Instructions (blocks w1 S)))"
    and nx: "nextInst w \<le> nextInst w1"
    and par: "\<forall>a<nextInst w. InstParent (insts w1 a) = InstParent (insts w a)"
    and pr: "Predecessors (blocks w1 T) =
               Predecessors (blocks w T) @ replicate (count_list (targetsOf c) T) S"
    and su: "Successors (blocks w1 S) = Successors (blocks w S) @ targetsOf c"
    by blast
  have rest: "\<forall>c'\<in>set cs. issuedFrom w1 S c' \<and> switchAllocated w1 c'"
  proof
    fix c'
    assume "c' \<in> set cs"
    with Cons.prems(3) have "issuedFrom w S c' \<and> switchAllocated w c'"
      by simp
    with cb nx par show "issuedFrom w1 S c' \<and> switchAllocated w1 c'"
      by (cases c') auto
  qed
  from Cons.IH [OF cb ip rest]
  obtain w' where "performEdges w1 cs = Inr w'"
    and "Predecessors (blocks w' T) =
           Predecessors (blocks w1 T) @ replicate (count_list (concat (map targetsOf cs)) T) S"
    and "Successors (blocks w' S) = Successors (blocks w1 S) @ concat (map targetsOf cs)"
    by blast
  with step pr su show ?case
    by (simp add: andThen_def replicate_add [symmetric] add.commute)
qed

text \<open>Cases alone never ask the builder anything.\<close>

lemma AddCase_step:
  assumes "InstParent (insts w sw) = Some S"
  shows "\<exists>w'. performEdge w (Edge_AddCase sw val block) = Inr w'
           \<and> (\<forall>a. InstParent (insts w' a) = InstParent (insts w a))
           \<and> Predecessors (blocks w' T) =
               Predecessors (blocks w T) @ replicate (count_list [block] T) S
           \<and> Successors (blocks w' S) = Successors (blocks w S) @ [block]"
  using assms
  by (auto simp: performEdge_def AddCase_def Let_def upd_block_def upd_inst_def)

lemma cases_only_accumulate:
  assumes "\<forall>c\<in>set cs. \<not> isBranch c \<and> issuedFrom w S c"
  shows "\<exists>w'. performEdges w cs = Inr w'
           \<and> Predecessors (blocks w' T) =
               Predecessors (blocks w T) @ replicate (count_list (concat (map targetsOf cs)) T) S
           \<and> Successors (blocks w' S) = Successors (blocks w S) @ concat (map targetsOf cs)"
  using assms
proof (induction cs arbitrary: w)
  case Nil
  then show ?case by simp
next
  case (Cons c cs)
  from Cons.prems obtain sw val block where c: "c = Edge_AddCase sw val block"
    and p: "InstParent (insts w sw) = Some S"
    by (cases c) auto
  from AddCase_step [OF p, of val block T]
  obtain w1 where step: "performEdge w c = Inr w1"
    and par: "\<forall>a. InstParent (insts w1 a) = InstParent (insts w a)"
    and pr: "Predecessors (blocks w1 T) =
               Predecessors (blocks w T) @ replicate (count_list (targetsOf c) T) S"
    and su: "Successors (blocks w1 S) = Successors (blocks w S) @ targetsOf c"
    unfolding c by auto
  have rest: "\<forall>c'\<in>set cs. \<not> isBranch c' \<and> issuedFrom w1 S c'"
  proof
    fix c'
    assume "c' \<in> set cs"
    with Cons.prems have "\<not> isBranch c' \<and> issuedFrom w S c'"
      by simp
    with par show "\<not> isBranch c' \<and> issuedFrom w1 S c'"
      by (cases c') auto
  qed
  from Cons.IH [OF rest]
  obtain w' where "performEdges w1 cs = Inr w'"
    and "Predecessors (blocks w' T) =
           Predecessors (blocks w1 T) @ replicate (count_list (concat (map targetsOf cs)) T) S"
    and "Successors (blocks w' S) = Successors (blocks w1 S) @ concat (map targetsOf cs)"
    by blast
  with step pr su show ?case
    by (simp add: andThen_def replicate_add [symmetric] add.commute)
qed

text \<open>
  Claim C5, as amended. Calls issued from a block \<open>S\<close> (branches and conditional branches
  with \<open>S\<close> the current block, cases of a switch whose parent is \<open>S\<close>) all succeed, and
  they append to the predecessor list of a block \<open>T\<close> one entry \<open>S\<close> for every target of
  a call that is \<open>T\<close>, and to the successor list of \<open>S\<close> every target, in order; nothing
  is collapsed. A branch and a switch case name one target, a conditional branch names
  two, so one conditional branch with both arms \<open>T\<close> appends two entries. When every call
  names \<open>T\<close> exactly once, \<open>N\<close> calls append exactly \<open>N\<close> entries. Only a list that holds
  a branch or a conditional branch asks anything of the builder (a cursor inside \<open>S\<close>,
  and switches allocated before the new instructions); cases alone need the parent of
  their switch and nothing else.
\<close>

theorem edges_accumulate_per_target:
  assumes "\<forall>c\<in>set cs. issuedFrom w S c"
    and "(\<exists>c\<in>set cs. isBranch c) \<longrightarrow>
           insertPoint (bld w) \<le> int (length (Instructions (blocks w S)))
         \<and> (\<forall>c\<in>set cs. switchAllocated w c)"
  shows "\<exists>w'. performEdges w cs = Inr w'
           \<and> Predecessors (blocks w' T) =
               Predecessors (blocks w T) @ replicate (count_list (concat (map targetsOf cs)) T) S
           \<and> Successors (blocks w' S) = Successors (blocks w S) @ concat (map targetsOf cs)
           \<and> ((\<forall>c\<in>set cs. count_list (targetsOf c) T = 1) \<longrightarrow>
                 Predecessors (blocks w' T) = Predecessors (blocks w T) @ replicate (length cs) S
               \<and> count_list (Successors (blocks w' S)) T
                   = count_list (Successors (blocks w S)) T + length cs)"
proof -
  have acc: "\<exists>w'. performEdges w cs = Inr w'
           \<and> Predecessors (blocks w' T) =
               Predecessors (blocks w T) @ replicate (count_list (concat (map targetsOf cs)) T) S
           \<and> Successors (blocks w' S) = Successors (blocks w S) @ concat (map targetsOf cs)"
  proof (cases "\<exists>c\<in>set cs. isBranch c")
    case True
    then obtain c where "c \<in> set cs" and "isBranch c"
      by blast
    with assms(1) have cb: "currentBlock (bld w) = Some S"
      by (cases c) auto
    from True assms(2) have ip: "insertPoint (bld w) \<le> int (length (Instructions (blocks w S)))"
      and al: "\<forall>c\<in>set cs. switchAllocated w c"
      by simp_all
    from assms(1) al have "\<forall>c\<in>set cs. issuedFrom w S c \<and> switchAllocated w c"
      by simp
    from performEdges_accumulate [OF cb ip this, of T] show ?thesis .
  next
    case False
    with assms(1) have "\<forall>c\<in>set cs. \<not> isBranch c \<and> issuedFrom w S c"
      by simp
    from cases_only_accumulate [OF this, of T] show ?thesis .
  qed
  then obtain w' where r: "performEdges w cs = Inr w'"
    and pr: "Predecessors (blocks w' T) =
               Predecessors (blocks w T) @ replicate (count_list (concat (map targetsOf cs)) T) S"
    and su: "Successors (blocks w' S) = Successors (blocks w S) @ concat (map targetsOf cs)"
    by blast
  have n: "count_list (concat (map targetsOf cs)) T = length cs"
    if "\<forall>c\<in>set cs. count_list (targetsOf c) T = 1"
    using that by (induction cs) simp_all
  from r pr su n show ?thesis
    by auto
qed

text \<open>
  One conditional branch from \<^verbatim>\<open>entry\<close> (address 0) with both arms \<^verbatim>\<open>merge\<close>
  (address 1): a single construction, and \<^verbatim>\<open>merge\<close> gets two predecessor entries.
\<close>

theorem condbr_same_target_twice:
  "map_sum id (\<lambda>(w, inst). (Predecessors (blocks w 1), Successors (blocks w 0)))
     (CreateCondBr threeBlocks (ConstInt I1 1) 1 1) = Inr ([0, 0], [1, 1])
   \<and> Predecessors (blocks threeBlocks 1) = []
   \<and> Successors (blocks threeBlocks 0) = []
   \<and> currentBlock (bld threeBlocks) = Some 0"
  by (simp add: world_eval CreateCondBr_def)

text \<open>
  A switch in \<^verbatim>\<open>entry\<close> with default \<^verbatim>\<open>other\<close>: two cases and a branch to
  \<^verbatim>\<open>merge\<close> issued through the builder that made the switch, and two cases to
  \<^verbatim>\<open>merge\<close> issued through a fresh builder that has no current block.
\<close>

theorem edges_accumulate_per_target_witness:
  "\<exists>w sw.
      CreateSwitch threeBlocks (ConstInt I32 9) 2 2 = Inr (w, sw)
    \<and> (\<exists>w'. performEdges w [Edge_AddCase sw (ConstInt I32 0) 1, Edge_AddCase sw (ConstInt I32 1) 1,
                             Edge_CreateBr 1] = Inr w'
          \<and> Predecessors (blocks w' 1) = [0, 0, 0]
          \<and> Successors (blocks w' 0) = [2, 1, 1, 1])
    \<and> currentBlock (bld (w\<lparr>bld := New\<rparr>)) = None
    \<and> (\<exists>w'. performEdges (w\<lparr>bld := New\<rparr>)
                 [Edge_AddCase sw (ConstInt I32 0) 1, Edge_AddCase sw (ConstInt I32 1) 1] = Inr w'
          \<and> Predecessors (blocks w' 1) = [0, 0]
          \<and> Successors (blocks w' 0) = [2, 1, 1])"
proof -
  obtain w where sw: "CreateSwitch threeBlocks (ConstInt I32 9) 2 2 = Inr (w, 0)"
    and cb: "currentBlock (bld w) = Some 0"
    and ip: "insertPoint (bld w) \<le> int (length (Instructions (blocks w 0)))"
    and par: "InstParent (insts w 0) = Some 0"
    and nx: "0 < nextInst w"
    and pr: "Predecessors (blocks w 1) = []"
    and su: "Successors (blocks w 0) = [2]"
    by (simp add: world_eval CreateSwitch_def)
  let ?cs = "[Edge_AddCase 0 (ConstInt I32 0) 1, Edge_AddCase 0 (ConstInt I32 1) 1, Edge_CreateBr 1]"
  let ?ds = "[Edge_AddCase 0 (ConstInt I32 0) 1, Edge_AddCase 0 (ConstInt I32 1) 1]"
  from cb par have iss: "\<forall>c\<in>set ?cs. issuedFrom w 0 c"
    by simp
  from ip nx have rdy: "(\<exists>c\<in>set ?cs. isBranch c) \<longrightarrow>
      insertPoint (bld w) \<le> int (length (Instructions (blocks w 0)))
      \<and> (\<forall>c\<in>set ?cs. switchAllocated w c)"
    by simp
  from edges_accumulate_per_target [OF iss rdy, of 1] pr su
  have a: "\<exists>w'. performEdges w ?cs = Inr w'
          \<and> Predecessors (blocks w' 1) = [0, 0, 0]
          \<and> Successors (blocks w' 0) = [2, 1, 1, 1]"
    by (auto simp: numeral_3_eq_3)
  from par have iss2: "\<forall>c\<in>set ?ds. issuedFrom (w\<lparr>bld := New\<rparr>) 0 c"
    by simp
  have rdy2: "(\<exists>c\<in>set ?ds. isBranch c) \<longrightarrow>
      insertPoint (bld (w\<lparr>bld := New\<rparr>))
        \<le> int (length (Instructions (blocks (w\<lparr>bld := New\<rparr>) 0)))
      \<and> (\<forall>c\<in>set ?ds. switchAllocated (w\<lparr>bld := New\<rparr>) c)"
    by simp
  from edges_accumulate_per_target [OF iss2 rdy2, of 1] pr su
  have b: "\<exists>w'. performEdges (w\<lparr>bld := New\<rparr>) ?ds = Inr w'
          \<and> Predecessors (blocks w' 1) = [0, 0]
          \<and> Successors (blocks w' 0) = [2, 1, 1]"
    by (auto simp: numeral_2_eq_2)
  have "currentBlock (bld (w\<lparr>bld := New\<rparr>)) = None"
    by (simp add: New_def)
  with sw a b show ?thesis
    by blast
qed

section \<open>Constructors and the insertion block\<close>

lemma setOperands_succeeds: "0 \<le> k \<Longrightarrow> \<exists>i'. setOperands i xs k = Inr i'"
  by (induction xs arbitrary: i k) (simp_all add: SetOperand_nonneg andThen_def)

lemma emit_no_block:
  "currentBlock (bld w) = None \<Longrightarrow> emit w i = Inl (Panic ''no insertion block set'')"
  by (simp add: emit_def insert_inst_def andThen_def Let_def)

lemma emit_with_block:
  "currentBlock (bld w) = Some cb \<Longrightarrow> emit w i \<noteq> Inl (Panic ''no insertion block set'')"
  by (simp add: emit_def insert_inst_def andThen_def Let_def)

lemma nameOrGenerate_block:
  "nameOrGenerate w name = (n, w1) \<Longrightarrow> currentBlock (bld w1) = currentBlock (bld w)"
  by (auto simp: nameOrGenerate_def generateName_def Let_def split: if_splits)

lemma generateName_block:
  "generateName w = (n, w1) \<Longrightarrow> currentBlock (bld w1) = currentBlock (bld w)"
  by (auto simp: generateName_def Let_def)

lemma setOperands_emit_no_block:
  "currentBlock (bld w) = None \<Longrightarrow> 0 \<le> k \<Longrightarrow>
   andThen (setOperands i xs k) (emit w) = Inl (Panic ''no insertion block set'')"
  using setOperands_succeeds [of k i xs] by (auto simp: andThen_def emit_no_block)

lemma setOperands_emit_with_block:
  "currentBlock (bld w) = Some cb \<Longrightarrow> 0 \<le> k \<Longrightarrow>
   andThen (setOperands i xs k) (emit w) \<noteq> Inl (Panic ''no insertion block set'')"
  using setOperands_succeeds [of k i xs] by (auto simp: andThen_def emit_with_block)

lemmas ctor_defs =
  CreateRet_def CreateRetVoid_def CreateBr_def CreateCondBr_def CreateSwitch_def
  CreateUnreachable_def createBinaryOp_def CreateAlloca_def CreateAllocaWithCount_def
  CreateLoad_def CreateVolatileLoad_def CreateAlignedLoad_def CreateStore_def
  CreateVolatileStore_def CreateAlignedStore_def CreateGEP_def CreateInBoundsGEP_def
  CreateStructGEP_def createCast_def CreateICmp_def CreateFCmp_def CreatePhi_def
  CreateSelect_def CreateCall_def CreateCallByName_def CreateExtractValue_def
  CreateInsertValue_def setFlag_def

lemmas wrapper_defs =
  CreateAdd_def CreateNSWAdd_def CreateNUWAdd_def CreateSub_def CreateNSWSub_def CreateMul_def
  CreateNSWMul_def CreateUDiv_def CreateExactUDiv_def CreateSDiv_def CreateExactSDiv_def
  CreateURem_def CreateSRem_def CreateFAdd_def CreateFSub_def CreateFMul_def CreateFDiv_def
  CreateFRem_def CreateShl_def CreateLShr_def CreateAShr_def CreateAnd_def CreateOr_def
  CreateXor_def CreateTrunc_def CreateZExt_def CreateSExt_def CreateFPTrunc_def CreateFPExt_def
  CreateFPToUI_def CreateFPToSI_def CreateUIToFP_def CreateSIToFP_def CreatePtrToInt_def
  CreateIntToPtr_def CreateBitCast_def CreateICmpEQ_def CreateICmpNE_def CreateICmpSLT_def
  CreateICmpSLE_def CreateICmpSGT_def CreateICmpSGE_def CreateICmpULT_def CreateICmpULE_def
  CreateICmpUGT_def CreateICmpUGE_def

lemma createBinaryOp_no_block:
  "currentBlock (bld w) = None \<Longrightarrow>
   createBinaryOp w op lhs rhs name = Inl (Panic ''no insertion block set'')"
  by (auto simp: createBinaryOp_def SetOperand_nonneg andThen_def Let_def emit_no_block
      dest: nameOrGenerate_block split: prod.splits)

lemma createCast_no_block:
  "currentBlock (bld w) = None \<Longrightarrow>
   createCast w op v ty name = Inl (Panic ''no insertion block set'')"
  by (auto simp: createCast_def SetOperand_nonneg andThen_def Let_def emit_no_block
      dest: nameOrGenerate_block split: prod.splits)

lemma CreateICmp_no_block:
  "currentBlock (bld w) = None \<Longrightarrow>
   CreateICmp w pred lhs rhs name = Inl (Panic ''no insertion block set'')"
  by (auto simp: CreateICmp_def SetOperand_nonneg andThen_def Let_def emit_no_block
      dest: nameOrGenerate_block split: prod.splits)

lemma binaryMethod_no_block:
  "currentBlock (bld w) = None \<Longrightarrow>
   binaryMethod m w lhs rhs name = Inl (Panic ''no insertion block set'')"
  by (cases m) (simp_all add: wrapper_defs setFlag_def andThen_def createBinaryOp_no_block)

lemma castMethod_no_block:
  "currentBlock (bld w) = None \<Longrightarrow>
   castMethod m w v ty name = Inl (Panic ''no insertion block set'')"
  by (cases m) (simp_all add: wrapper_defs createCast_no_block)

lemma icmpMethod_no_block:
  "currentBlock (bld w) = None \<Longrightarrow>
   icmpMethod m w lhs rhs name = Inl (Panic ''no insertion block set'')"
  by (cases m) (simp_all add: wrapper_defs CreateICmp_no_block)

lemma CreateGEP_no_block:
  "currentBlock (bld w) = None \<Longrightarrow>
   CreateGEP w ty ptr indices name = Inl (Panic ''no insertion block set'')"
proof -
  assume nb: "currentBlock (bld w) = None"
  obtain n w1 where g: "nameOrGenerate w name = (n, w1)"
    by (cases "nameOrGenerate w name")
  with nb have "currentBlock (bld w1) = None"
    by (simp add: nameOrGenerate_block)
  then have "andThen (setOperands i xs 0) (emit w1) = Inl (Panic ''no insertion block set'')" for i xs
    by (simp add: setOperands_emit_no_block)
  with g show ?thesis
    by (simp add: CreateGEP_def Let_def del: setOperands.simps)
qed

lemma CreateCall_no_block:
  "currentBlock (bld w) = None \<Longrightarrow>
   CreateCall w fn args name = Inl (Panic ''no insertion block set'')"
proof -
  assume nb: "currentBlock (bld w) = None"
  have "andThen (setOperands i xs 0) (emit w1) = Inl (Panic ''no insertion block set'')"
    if "currentBlock (bld w1) = None" for i xs w1
    using that by (simp add: setOperands_emit_no_block)
  with nb show ?thesis
    by (auto simp: CreateCall_def Let_def split: prod.splits if_splits dest: generateName_block)
qed

lemma CreateCallByName_no_block:
  "currentBlock (bld w) = None \<Longrightarrow> \<not> (resultName = [] \<and> retType = None) \<Longrightarrow>
   CreateCallByName w name retType args resultName = Inl (Panic ''no insertion block set'')"
proof -
  assume nb: "currentBlock (bld w) = None" and ok: "\<not> (resultName = [] \<and> retType = None)"
  have "andThen (setOperands i xs 0) (emit w1) = Inl (Panic ''no insertion block set'')"
    if "currentBlock (bld w1) = None" for i xs w1
    using that by (simp add: setOperands_emit_no_block)
  with nb ok show ?thesis
    by (auto simp: CreateCallByName_def Let_def andThen_def
        split: prod.splits if_splits option.splits dest: generateName_block)
qed

lemma simple_ctors_no_block:
  assumes "currentBlock (bld w) = None"
  shows "CreateRet w v = Inl (Panic ''no insertion block set'')"
    and "CreateRetVoid w = Inl (Panic ''no insertion block set'')"
    and "CreateBr w target = Inl (Panic ''no insertion block set'')"
    and "CreateCondBr w cond t f = Inl (Panic ''no insertion block set'')"
    and "0 \<le> n \<Longrightarrow> n \<le> maxSwitchCases w \<Longrightarrow>
         CreateSwitch w cond d n = Inl (Panic ''no insertion block set'')"
    and "CreateUnreachable w = Inl (Panic ''no insertion block set'')"
    and "CreateAlloca w ty name = Inl (Panic ''no insertion block set'')"
    and "CreateAllocaWithCount w ty count name = Inl (Panic ''no insertion block set'')"
    and "CreateLoad w typ ptr name = Inl (Panic ''no insertion block set'')"
    and "CreateStore w val ptr = Inl (Panic ''no insertion block set'')"
    and "CreateFCmp w fpred lhs rhs name = Inl (Panic ''no insertion block set'')"
    and "CreatePhi w typ name = Inl (Panic ''no insertion block set'')"
    and "CreateSelect w cond tv fv name = Inl (Panic ''no insertion block set'')"
    and "CreateExtractValue w agg indices name = Inl (Panic ''no insertion block set'')"
    and "CreateInsertValue w agg val indices name = Inl (Panic ''no insertion block set'')"
  using assms
  by (auto simp: CreateRet_def CreateRetVoid_def CreateBr_def CreateCondBr_def CreateSwitch_def
      CreateUnreachable_def CreateAlloca_def CreateAllocaWithCount_def CreateLoad_def
      CreateStore_def CreateFCmp_def CreatePhi_def CreateSelect_def CreateExtractValue_def
      CreateInsertValue_def SetOperand_nonneg andThen_def Let_def emit_no_block
      dest: nameOrGenerate_block split: prod.splits option.splits)

lemma derived_ctors_no_block:
  assumes "currentBlock (bld w) = None"
  shows "CreateVolatileLoad w typ ptr name = Inl (Panic ''no insertion block set'')"
    and "CreateAlignedLoad w typ ptr align name = Inl (Panic ''no insertion block set'')"
    and "CreateVolatileStore w val ptr = Inl (Panic ''no insertion block set'')"
    and "CreateAlignedStore w val ptr align = Inl (Panic ''no insertion block set'')"
    and "CreateInBoundsGEP w ty ptr indices name = Inl (Panic ''no insertion block set'')"
    and "CreateStructGEP w ty ptr idx name = Inl (Panic ''no insertion block set'')"
  using assms
  by (simp_all add: CreateVolatileLoad_def CreateAlignedLoad_def CreateVolatileStore_def
      CreateAlignedStore_def CreateInBoundsGEP_def CreateStructGEP_def setFlag_def andThen_def
      Let_def simple_ctors_no_block CreateGEP_no_block)

lemma constructors_panic_without_block:
  assumes "currentBlock (bld w) = None"
  shows "(\<exists>e. perform w c = Inl e)
       \<and> ((\<forall>cond d n. c = Call_CreateSwitch cond d n \<longrightarrow> 0 \<le> n \<and> n \<le> maxSwitchCases w)
           \<and> (\<forall>name args. c \<noteq> Call_CreateCallByName name None args [])
          \<longrightarrow> perform w c = Inl (Panic ''no insertion block set''))"
proof (cases c)
  case (Call_CreateCallByName name retType args resultName)
  show ?thesis
  proof (cases "resultName = [] \<and> retType = None")
    case True
    with Call_CreateCallByName show ?thesis
      by (simp add: perform_def CreateCallByName_def andThen_def)
  next
    case False
    with Call_CreateCallByName assms show ?thesis
      by (simp add: perform_def CreateCallByName_no_block)
  qed
next
  case (Call_CreateSwitch cond d n)
  show ?thesis
  proof (cases "0 \<le> n \<and> n \<le> maxSwitchCases w")
    case True
    with Call_CreateSwitch assms show ?thesis
      by (simp add: perform_def simple_ctors_no_block)
  next
    case False
    then have "n < 0 \<or> maxSwitchCases w < n"
      by auto
    then have "CreateSwitch w cond d n = Inl (Panic ''makeslice: cap out of range'')"
      by (simp add: CreateSwitch_def)
    with Call_CreateSwitch False show ?thesis
      by (auto simp: perform_def)
  qed
qed (insert assms, simp_all add: perform_def binaryMethod_no_block castMethod_no_block
      icmpMethod_no_block CreateGEP_no_block CreateCall_no_block CreateICmp_no_block
      simple_ctors_no_block derived_ctors_no_block)

lemma setFlag_not_panic: "r \<noteq> Inl e \<Longrightarrow> setFlag f r \<noteq> Inl e"
  by (cases r) (auto simp: setFlag_def andThen_def)

lemma createBinaryOp_with_block:
  "currentBlock (bld w) = Some cb \<Longrightarrow>
   createBinaryOp w op lhs rhs name \<noteq> Inl (Panic ''no insertion block set'')"
  by (auto simp: createBinaryOp_def SetOperand_nonneg andThen_def Let_def emit_with_block
      dest: nameOrGenerate_block split: prod.splits)

lemma createCast_with_block:
  "currentBlock (bld w) = Some cb \<Longrightarrow>
   createCast w op v ty name \<noteq> Inl (Panic ''no insertion block set'')"
  by (auto simp: createCast_def SetOperand_nonneg andThen_def Let_def emit_with_block
      dest: nameOrGenerate_block split: prod.splits)

lemma CreateICmp_with_block:
  "currentBlock (bld w) = Some cb \<Longrightarrow>
   CreateICmp w pred lhs rhs name \<noteq> Inl (Panic ''no insertion block set'')"
  by (auto simp: CreateICmp_def SetOperand_nonneg andThen_def Let_def emit_with_block
      dest: nameOrGenerate_block split: prod.splits)

lemma binaryMethod_with_block:
  "currentBlock (bld w) = Some cb \<Longrightarrow>
   binaryMethod m w lhs rhs name \<noteq> Inl (Panic ''no insertion block set'')"
  by (cases m) (simp_all add: wrapper_defs setFlag_not_panic createBinaryOp_with_block)

lemma castMethod_with_block:
  "currentBlock (bld w) = Some cb \<Longrightarrow>
   castMethod m w v ty name \<noteq> Inl (Panic ''no insertion block set'')"
  by (cases m) (simp_all add: wrapper_defs createCast_with_block)

lemma icmpMethod_with_block:
  "currentBlock (bld w) = Some cb \<Longrightarrow>
   icmpMethod m w lhs rhs name \<noteq> Inl (Panic ''no insertion block set'')"
  by (cases m) (simp_all add: wrapper_defs CreateICmp_with_block)

lemma CreateGEP_with_block:
  "currentBlock (bld w) = Some cb \<Longrightarrow>
   CreateGEP w ty ptr indices name \<noteq> Inl (Panic ''no insertion block set'')"
proof -
  assume sb: "currentBlock (bld w) = Some cb"
  obtain n w1 where g: "nameOrGenerate w name = (n, w1)"
    by (cases "nameOrGenerate w name")
  with sb have "currentBlock (bld w1) = Some cb"
    by (simp add: nameOrGenerate_block)
  then have "andThen (setOperands i xs 0) (emit w1) \<noteq> Inl (Panic ''no insertion block set'')" for i xs
    by (simp add: setOperands_emit_with_block)
  with g show ?thesis
    by (simp add: CreateGEP_def Let_def del: setOperands.simps)
qed

lemma CreateCall_with_block:
  "currentBlock (bld w) = Some cb \<Longrightarrow>
   CreateCall w fn args name \<noteq> Inl (Panic ''no insertion block set'')"
proof -
  assume sb: "currentBlock (bld w) = Some cb"
  have "andThen (setOperands i xs 0) (emit w1) \<noteq> Inl (Panic ''no insertion block set'')"
    if "currentBlock (bld w1) = Some cb" for i xs w1
    using that by (simp add: setOperands_emit_with_block)
  with sb show ?thesis
    by (auto simp: CreateCall_def Let_def split: prod.splits if_splits dest: generateName_block)
qed

lemma CreateCallByName_with_block:
  "currentBlock (bld w) = Some cb \<Longrightarrow>
   CreateCallByName w name retType args resultName \<noteq> Inl (Panic ''no insertion block set'')"
proof -
  assume sb: "currentBlock (bld w) = Some cb"
  have "andThen (setOperands i xs 0) (emit w1) \<noteq> Inl (Panic ''no insertion block set'')"
    if "currentBlock (bld w1) = Some cb" for i xs w1
    using that by (simp add: setOperands_emit_with_block)
  with sb show ?thesis
    by (auto simp: CreateCallByName_def Let_def andThen_def
        split: prod.splits if_splits option.splits dest: generateName_block)
qed

lemma simple_ctors_with_block:
  assumes "currentBlock (bld w) = Some cb"
  shows "CreateRet w v \<noteq> Inl (Panic ''no insertion block set'')"
    and "CreateRetVoid w \<noteq> Inl (Panic ''no insertion block set'')"
    and "CreateBr w target \<noteq> Inl (Panic ''no insertion block set'')"
    and "CreateCondBr w cond t f \<noteq> Inl (Panic ''no insertion block set'')"
    and "CreateSwitch w cond d n \<noteq> Inl (Panic ''no insertion block set'')"
    and "CreateUnreachable w \<noteq> Inl (Panic ''no insertion block set'')"
    and "CreateAlloca w ty name \<noteq> Inl (Panic ''no insertion block set'')"
    and "CreateAllocaWithCount w ty count name \<noteq> Inl (Panic ''no insertion block set'')"
    and "CreateLoad w typ ptr name \<noteq> Inl (Panic ''no insertion block set'')"
    and "CreateStore w val ptr \<noteq> Inl (Panic ''no insertion block set'')"
    and "CreateFCmp w fpred lhs rhs name \<noteq> Inl (Panic ''no insertion block set'')"
    and "CreatePhi w typ name \<noteq> Inl (Panic ''no insertion block set'')"
    and "CreateSelect w cond tv fv name \<noteq> Inl (Panic ''no insertion block set'')"
    and "CreateExtractValue w agg indices name \<noteq> Inl (Panic ''no insertion block set'')"
    and "CreateInsertValue w agg val indices name \<noteq> Inl (Panic ''no insertion block set'')"
  using assms
  by (auto simp: CreateRet_def CreateRetVoid_def CreateBr_def CreateCondBr_def CreateSwitch_def
      CreateUnreachable_def CreateAlloca_def CreateAllocaWithCount_def CreateLoad_def
      CreateStore_def CreateFCmp_def CreatePhi_def CreateSelect_def CreateExtractValue_def
      CreateInsertValue_def SetOperand_nonneg Let_def emit_with_block
      emit_def insert_inst_def andThen_def
      dest: nameOrGenerate_block split: prod.splits option.splits)

lemma derived_ctors_with_block:
  assumes "currentBlock (bld w) = Some cb"
  shows "CreateVolatileLoad w typ ptr name \<noteq> Inl (Panic ''no insertion block set'')"
    and "CreateAlignedLoad w typ ptr align name \<noteq> Inl (Panic ''no insertion block set'')"
    and "CreateVolatileStore w val ptr \<noteq> Inl (Panic ''no insertion block set'')"
    and "CreateAlignedStore w val ptr align \<noteq> Inl (Panic ''no insertion block set'')"
    and "CreateInBoundsGEP w ty ptr indices name \<noteq> Inl (Panic ''no insertion block set'')"
    and "CreateStructGEP w ty ptr idx name \<noteq> Inl (Panic ''no insertion block set'')"
  using assms
  by (simp_all add: CreateVolatileLoad_def CreateAlignedLoad_def CreateVolatileStore_def
      CreateAlignedStore_def CreateInBoundsGEP_def CreateStructGEP_def setFlag_not_panic
      Let_def simple_ctors_with_block CreateGEP_with_block)

lemma perform_with_block:
  assumes "currentBlock (bld w) = Some cb"
  shows "perform w c \<noteq> Inl (Panic ''no insertion block set'')"
  using assms
  by (cases c)
     (simp_all add: perform_def binaryMethod_with_block castMethod_with_block
      icmpMethod_with_block CreateGEP_with_block CreateCall_with_block CreateICmp_with_block
      CreateCallByName_with_block simple_ctors_with_block derived_ctors_with_block)

text \<open>
  Claim C6. Every instruction constructor of the builder, called while the current
  block is nil, ends in a panic and returns nothing; the panic is that of
  \<^verbatim>\<open>insert\<close>, \<^verbatim>\<open>no insertion block set\<close>, unless the call panics before it gets
  there (a switch with a case count that is negative or beyond what can be allocated,
  a call by name with a nil return type and no result name). With a current block set, no constructor raises that panic.
\<close>

theorem constructors_need_insertion_block:
  "(currentBlock (bld w) = None \<longrightarrow>
      (\<exists>e. perform w c = Inl e)
    \<and> ((\<forall>cond d n. c = Call_CreateSwitch cond d n \<longrightarrow> 0 \<le> n \<and> n \<le> maxSwitchCases w)
        \<and> (\<forall>name args. c \<noteq> Call_CreateCallByName name None args [])
       \<longrightarrow> perform w c = Inl (Panic ''no insertion block set'')))
   \<and> (currentBlock (bld w) \<noteq> None \<longrightarrow> perform w c \<noteq> Inl (Panic ''no insertion block set''))"
  using constructors_panic_without_block [of w c] perform_with_block [of w _ c]
  by auto

theorem constructors_need_insertion_block_witness:
  "currentBlock (bld emptyWorld) = None
   \<and> perform emptyWorld (Call_Binary M_CreateAdd (ConstInt I32 2) (ConstInt I32 3) [])
       = Inl (Panic ''no insertion block set'')
   \<and> perform emptyWorld (Call_CreateRet None) = Inl (Panic ''no insertion block set'')
   \<and> currentBlock (bld startWorld) = Some 0
   \<and> perform startWorld (Call_Binary M_CreateAdd (ConstInt I32 2) (ConstInt I32 3) [])
       \<noteq> Inl (Panic ''no insertion block set'')
   \<and> isl (perform startWorld (Call_CreateRet None)) = False"
proof -
  have e: "currentBlock (bld emptyWorld) = None"
    by (simp add: emptyWorld_def New_def)
  have s: "currentBlock (bld startWorld) = Some 0"
    by (simp add: world_eval)
  have r: "isl (perform startWorld (Call_CreateRet None)) = False"
    by (simp add: perform_def CreateRet_def world_eval)
  from e s r
    constructors_need_insertion_block
      [of emptyWorld "Call_Binary M_CreateAdd (ConstInt I32 2) (ConstInt I32 3) []"]
    constructors_need_insertion_block [of emptyWorld "Call_CreateRet None"]
    constructors_need_insertion_block
      [of startWorld "Call_Binary M_CreateAdd (ConstInt I32 2) (ConstInt I32 3) []"]
  show ?thesis
    by simp
qed

section \<open>Printing a binary instruction\<close>

text \<open>
  Claim C2. In a builder whose naming counter is 0 and that has a block to insert into,
  \<^verbatim>\<open>CreateAdd\<close> of the \<^verbatim>\<open>i32\<close> constants 2 and 3 with no name gives the instruction
  the generated name \<^verbatim>\<open>0\<close>, and the instruction prints as \<^verbatim>\<open>%0 = add i32 2, 3\<close>: the
  constants appear by their value.
\<close>

theorem CreateAdd_constants_prints_inline:
  assumes "nameCounter (bld w) = 0"
    and "currentBlock (bld w) = Some cb"
    and "insertPoint (bld w) \<le> int (length (Instructions (blocks w cb)))"
  shows "\<exists>w' a. CreateAdd w (ConstInt I32 2) (ConstInt I32 3) [] = Inr (w', a)
           \<and> ValName (insts w' a) = ''0''
           \<and> Fields (insts w' a) = BinaryInst False False False
           \<and> Ops (insts w' a) = [Some (ConstInt I32 2), Some (ConstInt I32 3)]
           \<and> (\<forall>g. BinaryInst_String g w' (insts w' a) False False False
                    = Inr ''%0 = add i32 2, 3'')"
  using assms
  by (auto simp: CreateAdd_def createBinaryOp_def nameOrGenerate_def generateName_def
      SetOperand_def grow.simps new_Instruction_def emit_def insert_inst_def AddInstruction_def
      upd_inst_def upd_block_def andThen_def Let_def ConstInt_def I32_def
      BinaryInst_String_def binaryFlags_def fmt_Type_def formatOp_def
      show_int_def show_nat.simps digit_char_def)

theorem CreateAdd_constants_prints_inline_witness:
  "\<exists>w a. CreateAdd startWorld (ConstInt I32 2) (ConstInt I32 3) [] = Inr (w, a)
         \<and> a = 0 \<and> Instructions (blocks w 0) = [0]
         \<and> ValName (insts w a) = ''0''
         \<and> (\<forall>g. BinaryInst_String g w (insts w a) False False False = Inr ''%0 = add i32 2, 3'')"
proof -
  have h: "nameCounter (bld startWorld) = 0" "currentBlock (bld startWorld) = Some 0"
    "insertPoint (bld startWorld) \<le> int (length (Instructions (blocks startWorld 0)))"
    by (simp_all add: world_eval)
  have r: "\<exists>w. CreateAdd startWorld (ConstInt I32 2) (ConstInt I32 3) [] = Inr (w, 0)
             \<and> Instructions (blocks w 0) = [0]"
    by (simp add: world_eval CreateAdd_def createBinaryOp_def)
  from CreateAdd_constants_prints_inline [OF h] r show ?thesis
    by auto
qed

text \<open>
  The second copy of \<^verbatim>\<open>BinaryInst.String\<close> prints the same instruction by the names
  of its operands, which are empty for constants.
\<close>

lemma CreateAdd_constants_byName:
  "\<exists>w a. CreateAdd startWorld (ConstInt I32 2) (ConstInt I32 3) [] = Inr (w, a)
         \<and> BinaryInst_String_byName w (insts w a) False False False = Inr ''%0 = add i32 %, %''"
  by (simp add: world_eval CreateAdd_def createBinaryOp_def BinaryInst_String_byName_def
      binaryFlags_def fmt_Type_def)

end
